theory Spec2Isabelle
  imports Complex_Main
begin

section \<open>PottsKMC post-processing: data model\<close>

text \<open>
  The development embeds \<^verbatim>\<open>src/api/experiments.py\<close>. Python's \<^verbatim>\<open>float\<close> and
  numpy's \<^verbatim>\<open>float64\<close> are modelled by \<^typ>\<open>real\<close>: rounding, \<^verbatim>\<open>inf\<close> and
  \<^verbatim>\<open>nan\<close> are outside the model, so a statement about a quotient is read with a
  non-zero divisor. \<^verbatim>\<open>int64\<close> lattice entries are modelled by \<^typ>\<open>int\<close>, and the
  product of two of them wraps around as \<^verbatim>\<open>int64\<close> arithmetic does. A numpy array of shape
  \<open>(frames, N, M)\<close> is a list of frames, a frame a list of \<open>N\<close> rows of \<open>M\<close> entries.
\<close>

datatype error =
  ValueError | KeyError | TypeError | IndexError | AttributeError | UnboundLocalError

text \<open>Values of the parameter dictionary: \<^verbatim>\<open>PARAM_TRANS\<close> maps a name to \<^verbatim>\<open>int\<close>,
  \<^verbatim>\<open>float\<close> or \<^verbatim>\<open>str\<close>.\<close>

datatype pvalue = PInt int | PFloat real | PStr string

text \<open>Values stored in the \<^verbatim>\<open>properties\<close> dictionary and returned by the observable
  methods: a pair of floats, a pair of one-dimensional arrays (Lambda), a pair of
  two-dimensional arrays (spatial correlation), or a single two-dimensional array
  (what \<^verbatim>\<open>recalculate_spatial_correlation\<close> returns).\<close>

datatype pyval =
  PairF real real
| PairA1 "real list" "real list"
| PairA2 "real list list" "real list list"
| Arr2 "real list list"

record PottsResult =
  params :: "string \<rightharpoonup> pvalue"
  kB :: real
  properties :: "string \<rightharpoonup> pyval"
  trajIdx :: "int list"
  traj :: "int list list list"
  trajT :: "real list"
  trajDt :: "real list"
  trajEnergy :: "real list"
  totalSampleTime :: real

text \<open>\<^verbatim>\<open>self.params[name]\<close> where the code uses the value as an integer: a missing key
  raises \<^verbatim>\<open>KeyError\<close>.\<close>

definition param_int :: "(string \<rightharpoonup> pvalue) \<Rightarrow> string \<Rightarrow> error + int" where
  "param_int ps k =
     (case ps k of
        None \<Rightarrow> Inl KeyError
      | Some (PInt n) \<Rightarrow> Inr n
      | Some (PFloat x) \<Rightarrow> Inl TypeError
      | Some (PStr s) \<Rightarrow> Inl TypeError)"

text \<open>Sequencing of steps that may raise: the first error is the result.\<close>

definition bindE :: "error + 'a \<Rightarrow> ('a \<Rightarrow> error + 'b) \<Rightarrow> error + 'b" where
  "bindE x f = (case x of Inl e \<Rightarrow> Inl e | Inr a \<Rightarrow> f a)"

section \<open>Time-weighted estimators\<close>

text \<open>
  \<^verbatim>\<open>calculate_mean\<close> on a one-dimensional quantity:
  \<^verbatim>\<open>(quantity * self.trajDt).sum(axis=0) / self.totalSampleTime\<close>.
  The product pairs the entries of \<^verbatim>\<open>quantity\<close> and \<^verbatim>\<open>trajDt\<close>; numpy raises when
  the two lengths differ (and neither is 1), so the theorems below take the lengths equal,
  as the docstring of the method requires.
\<close>

definition calculate_mean :: "PottsResult \<Rightarrow> real list \<Rightarrow> real" where
  "calculate_mean self quantity =
     sum_list (map2 (*) quantity (trajDt self)) / totalSampleTime self"

definition calculate_var :: "PottsResult \<Rightarrow> real list \<Rightarrow> real" where
  "calculate_var self quantity =
     (let mean = calculate_mean self quantity
      in calculate_mean self (map (\<lambda>x. (x - mean)\<^sup>2) quantity))"

definition calculate_var_of_mean :: "PottsResult \<Rightarrow> real list \<Rightarrow> real" where
  "calculate_var_of_mean self quantity =
     (let netQuantity = map (\<lambda>x. x - calculate_mean self quantity) quantity
      in sum_list (map (\<lambda>x. x\<^sup>2) (map2 (*) netQuantity (trajDt self)))
           / (totalSampleTime self)\<^sup>2)"

text \<open>
  \<^verbatim>\<open>calculate_mean\<close> on the lattice sequence \<^verbatim>\<open>self.traj\<close> of shape \<open>(frames, N, M)\<close>:
  \<^verbatim>\<open>trajDt\<close> is reshaped to \<open>(-1, 1, 1)\<close>, every entry of frame \<open>t\<close> is multiplied by
  \<open>trajDt[t]\<close>, the frames are summed (\<^verbatim>\<open>sum(axis=0)\<close>, an \<open>N \<times> M\<close> array of zeros when
  there is no frame) and every entry is divided by \<^verbatim>\<open>totalSampleTime\<close>.
\<close>

definition lattice_zeros :: "nat \<Rightarrow> nat \<Rightarrow> real list list" where
  "lattice_zeros n m = replicate n (replicate m 0)"

definition lattice_add :: "real list list \<Rightarrow> real list list \<Rightarrow> real list list" where
  "lattice_add a b = map2 (map2 (+)) a b"

definition sum_axis0 :: "nat \<Rightarrow> nat \<Rightarrow> real list list list \<Rightarrow> real list list" where
  "sum_axis0 n m frames = foldr lattice_add frames (lattice_zeros n m)"

definition calculate_mean_3d ::
  "PottsResult \<Rightarrow> nat \<Rightarrow> nat \<Rightarrow> real list list list \<Rightarrow> real list list" where
  "calculate_mean_3d self n m quantity =
     map (map (\<lambda>x. x / totalSampleTime self))
       (sum_axis0 n m (map2 (\<lambda>f d. map (map (\<lambda>x. x * d)) f) quantity (trajDt self)))"

section \<open>Spatial correlation and Lambda\<close>

text \<open>\<^verbatim>\<open>np.roll(a, -i, axis)\<close> for \<open>i \<ge> 0\<close> moves entry \<open>(k + i) mod n\<close> to position \<open>k\<close>:
  a left rotation. On the row axis of a frame it rotates the list of rows, on the column
  axis every row.\<close>

definition roll_frame :: "nat \<Rightarrow> nat \<Rightarrow> 'a list list \<Rightarrow> 'a list list" where
  "roll_frame i j f = map (rotate j) (rotate i f)"

text \<open>\<^verbatim>\<open>a.mean(axis=(1,2))\<close> on one frame: the sum of its entries over their number.\<close>

definition frame_mean :: "real list list \<Rightarrow> real" where
  "frame_mean f = sum_list (concat f) / real (length (concat f))"

definition to_real_traj :: "int list list list \<Rightarrow> real list list list" where
  "to_real_traj q = map (map (map real_of_int)) q"

text \<open>The product of two \<^verbatim>\<open>int64\<close> values in numpy: the mathematical product reduced
  to the signed 64-bit range, without any error.\<close>

definition wrap_int64 :: "int \<Rightarrow> int" where
  "wrap_int64 x = (x + 2 ^ 63) mod 2 ^ 64 - 2 ^ 63"

text \<open>\<^verbatim>\<open>_calculate_spatial_correlation(i, j)\<close>, for the offsets \<open>i, j \<ge> 0\<close> that the
  callers pass (\<^verbatim>\<open>range\<close> indices).\<close>

definition calculate_spatial_correlation ::
  "PottsResult \<Rightarrow> nat \<Rightarrow> nat \<Rightarrow> error + (real \<times> real)" where
  "calculate_spatial_correlation self i j =
     bindE (param_int (params self) ''N'') (\<lambda>N.
     bindE (param_int (params self) ''M'') (\<lambda>M.
        (let shiftedTraj = map (roll_frame i j) (traj self);
             aveSigma = calculate_mean_3d self (nat N) (nat M) (to_real_traj (traj self));
             aveSigmaShifted = roll_frame i j aveSigma;
             netCorrTraj =
               map2 (\<lambda>sf f.
                   map2 (map2 (-))
                     (map2 (map2 (\<lambda>s t. real_of_int (wrap_int64 (s * t)))) sf f)
                     (map2 (map2 (*)) aveSigma aveSigmaShifted))
                 shiftedTraj (traj self);
             corrMean = map frame_mean netCorrTraj;
             corr = calculate_mean self corrMean;
             corr_std = sqrt (calculate_var_of_mean self corrMean / real_of_int (N * M))
         in Inr (corr, corr_std))))"

text \<open>A loop that fills an array from calls that may raise: the first error ends it.\<close>

fun mapE :: "('a \<Rightarrow> error + 'b) \<Rightarrow> 'a list \<Rightarrow> error + 'b list" where
  "mapE f [] = Inr []"
| "mapE f (x # xs) = bindE (f x) (\<lambda>y. bindE (mapE f xs) (\<lambda>ys. Inr (y # ys)))"

text \<open>The \<^verbatim>\<open>cutoff\<close> argument of the correlation methods: \<^verbatim>\<open>None\<close>, a scalar or a pair.\<close>

datatype cutoff = CNone | CScalar int | CPair int int

definition cutoff_bounds :: "PottsResult \<Rightarrow> cutoff \<Rightarrow> error + (int \<times> int)" where
  "cutoff_bounds self c =
     (case c of
        CNone \<Rightarrow>
          bindE (param_int (params self) ''N'') (\<lambda>N.
          bindE (param_int (params self) ''M'') (\<lambda>M.
            Inr (N div 2, M div 2)))
      | CScalar k \<Rightarrow> Inr (k, k)
      | CPair a b \<Rightarrow> Inr (a, b))"

text \<open>\<^verbatim>\<open>recalculate_spatial_correlation\<close>: \<^verbatim>\<open>np.zeros\<close> raises \<^verbatim>\<open>ValueError\<close> on a
  negative dimension; the double loop fills both arrays; the pair is stored and only
  \<^verbatim>\<open>correlations\<close> is returned.\<close>

definition recalculate_spatial_correlation ::
  "PottsResult \<Rightarrow> cutoff \<Rightarrow> error + (PottsResult \<times> pyval)" where
  "recalculate_spatial_correlation self c =
     bindE (cutoff_bounds self c) (\<lambda>(Nmax, Mmax).
       if Nmax < 0 \<or> Mmax < 0 then Inl ValueError
       else
         bindE (mapE (\<lambda>i. mapE (\<lambda>j. calculate_spatial_correlation self i j) [0..<nat Mmax])
                  [0..<nat Nmax])
           (\<lambda>cells.
              (let correlations = map (map fst) cells;
                   correlations_std = map (map snd) cells
               in Inr (self\<lparr>properties := (properties self)
                          (''spatialCorrelation'' \<mapsto> PairA2 correlations correlations_std)\<rparr>,
                       Arr2 correlations))))"

text \<open>\<^verbatim>\<open>get_spatial_correlation\<close>: the cached entry is the tuple stored above, and the
  guard reads its \<^verbatim>\<open>.shape\<close>; a tuple has no such attribute, so the guard raises
  \<^verbatim>\<open>AttributeError\<close> whenever the key is present. An \<^verbatim>\<open>ndarray\<close> under the key (never
  stored by this module) has a shape to compare.\<close>

definition py_shape :: "pyval \<Rightarrow> error + (int \<times> int)" where
  "py_shape v =
     (case v of
        Arr2 a \<Rightarrow> Inr (int (length a), (case a of [] \<Rightarrow> 0 | r # _ \<Rightarrow> int (length r)))
      | PairF x y \<Rightarrow> Inl AttributeError
      | PairA1 x y \<Rightarrow> Inl AttributeError
      | PairA2 x y \<Rightarrow> Inl AttributeError)"

definition get_spatial_correlation ::
  "PottsResult \<Rightarrow> cutoff \<Rightarrow> error + (PottsResult \<times> pyval)" where
  "get_spatial_correlation self c =
     bindE (cutoff_bounds self c) (\<lambda>(Nmax, Mmax).
       (case properties self ''spatialCorrelation'' of
          None \<Rightarrow> recalculate_spatial_correlation self c
        | Some v \<Rightarrow>
            bindE (py_shape v) (\<lambda>sh.
              if (Nmax, Mmax) = sh then Inr (self, v)
              else recalculate_spatial_correlation self c)))"

text \<open>\<^verbatim>\<open>recalculate_lambda\<close>: \<^verbatim>\<open>Nmax\<close> is assigned only under \<^verbatim>\<open>if cutoff is None\<close>; with
  a cutoff the first use of \<^verbatim>\<open>Nmax\<close> raises \<^verbatim>\<open>UnboundLocalError\<close>.\<close>

definition recalculate_lambda ::
  "PottsResult \<Rightarrow> int option \<Rightarrow> error + (PottsResult \<times> pyval)" where
  "recalculate_lambda self c =
     (case c of
        Some k \<Rightarrow> Inl UnboundLocalError
      | None \<Rightarrow>
          bindE (param_int (params self) ''N'') (\<lambda>N.
          bindE (param_int (params self) ''M'') (\<lambda>M.
             (let Nmax = min (N div 2) (M div 2) in
              if Nmax < 0 then Inl ValueError
              else
                bindE (mapE (\<lambda>i. calculate_spatial_correlation self i 0) [0..<nat Nmax]) (\<lambda>V.
                bindE (mapE (\<lambda>j. calculate_spatial_correlation self 0 j) [0..<nat Nmax]) (\<lambda>H.
                    (let VCorr = map fst V; VCorr_std = map snd V;
                         HCorr = map fst H; HCorr_std = map snd H;
                         Lambda =
                           PairA1 (map2 (\<lambda>v h. (v + h) / 2) VCorr HCorr)
                                  (map2 (\<lambda>v h. sqrt ((v\<^sup>2 + h\<^sup>2) / 2)) VCorr_std HCorr_std)
                     in Inr (self\<lparr>properties := (properties self)(''Lambda'' \<mapsto> Lambda)\<rparr>,
                             Lambda))))))))"

text \<open>\<^verbatim>\<open>len\<close> of a stored value: \<open>2\<close> for a tuple, the number of rows for an array.\<close>

definition py_len :: "pyval \<Rightarrow> int" where
  "py_len v =
     (case v of
        Arr2 a \<Rightarrow> int (length a)
      | PairF x y \<Rightarrow> 2
      | PairA1 x y \<Rightarrow> 2
      | PairA2 x y \<Rightarrow> 2)"

definition get_lambda ::
  "PottsResult \<Rightarrow> int option \<Rightarrow> error + (PottsResult \<times> pyval)" where
  "get_lambda self c =
     bindE (case c of
              Some k \<Rightarrow> Inr None
            | None \<Rightarrow>
                bindE (param_int (params self) ''N'') (\<lambda>N.
                bindE (param_int (params self) ''M'') (\<lambda>M.
                  Inr (Some (min (N div 2) (M div 2))))))
       (\<lambda>Nmax.
          (case properties self ''Lambda'' of
             None \<Rightarrow> recalculate_lambda self c
           | Some v \<Rightarrow>
               (case Nmax of
                  None \<Rightarrow> Inl UnboundLocalError
                | Some n \<Rightarrow>
                    if n = py_len v then Inr (self, v) else recalculate_lambda self c)))"

section \<open>Python strings and slices\<close>

text \<open>
  Text is ASCII. \<^verbatim>\<open>str.strip\<close>, \<^verbatim>\<open>str.split()\<close> and the regular expression class
  \<^verbatim>\<open>\s\<close> take as whitespace the characters tab, line feed, vertical tab, form feed,
  carriage return, the separators \<open>0x1C\<close> to \<open>0x1F\<close> and the space; \<^verbatim>\<open>\w\<close> is a
  letter, a digit or the underscore.
\<close>

definition is_space :: "char \<Rightarrow> bool" where
  "is_space c = (let n = of_char c :: nat in (9 \<le> n \<and> n \<le> 13) \<or> (28 \<le> n \<and> n \<le> 32))"

definition is_word :: "char \<Rightarrow> bool" where
  "is_word c =
     (let n = of_char c :: nat
      in (48 \<le> n \<and> n \<le> 57) \<or> (65 \<le> n \<and> n \<le> 90) \<or> n = 95 \<or> (97 \<le> n \<and> n \<le> 122))"

definition newline :: char where
  "newline = CHR 0x0A"

definition py_strip :: "string \<Rightarrow> string" where
  "py_strip s = rev (dropWhile is_space (rev (dropWhile is_space s)))"

text \<open>\<^verbatim>\<open>s.split(d)\<close> on a one-character separator: every occurrence separates, empty
  parts are kept.\<close>

fun split_on :: "char \<Rightarrow> string \<Rightarrow> string list" where
  "split_on d [] = [[]]"
| "split_on d (c # cs) =
     (if c = d then [] # split_on d cs
      else (case split_on d cs of [] \<Rightarrow> [[c]] | w # ws \<Rightarrow> (c # w) # ws))"

text \<open>\<^verbatim>\<open>sub in s\<close> for strings.\<close>

definition starts_with :: "string \<Rightarrow> string \<Rightarrow> bool" where
  "starts_with p s = (take (length p) s = p)"

fun contains :: "string \<Rightarrow> string \<Rightarrow> bool" where
  "contains sub [] = (sub = [])"
| "contains sub (c # cs) = (starts_with sub (c # cs) \<or> contains sub cs)"

text \<open>
  A Python or numpy slice \<^verbatim>\<open>start:stop:step\<close> applied to a sequence of length \<open>n\<close>
  (\<^verbatim>\<open>slice.indices\<close>): a zero step raises \<^verbatim>\<open>ValueError\<close>, negative bounds count from
  the end, bounds are clipped, and the selected positions are
  \<open>start, start + step, \<dots>\<close> before \<open>stop\<close>.
\<close>

record pyslice =
  sl_start :: "int option"
  sl_stop :: "int option"
  sl_step :: "int option"

definition clip_bound :: "int \<Rightarrow> int \<Rightarrow> int \<Rightarrow> int" where
  "clip_bound step len b =
     (if b < 0 then (if b + len < 0 then (if step < 0 then - 1 else 0) else b + len)
      else if b \<ge> len then (if step < 0 then len - 1 else len)
      else b)"

definition slice_indices :: "pyslice \<Rightarrow> nat \<Rightarrow> error + nat list" where
  "slice_indices sl n =
     (let step = (case sl_step sl of None \<Rightarrow> 1 | Some s \<Rightarrow> s); len = int n in
      if step = 0 then Inl ValueError
      else
        (let start = (case sl_start sl of
                        None \<Rightarrow> (if step < 0 then len - 1 else 0)
                      | Some b \<Rightarrow> clip_bound step len b);
             stop = (case sl_stop sl of
                       None \<Rightarrow> (if step < 0 then - 1 else len)
                     | Some b \<Rightarrow> clip_bound step len b);
             count = (if step > 0
                      then (if start < stop then (stop - start + step - 1) div step else 0)
                      else (if stop < start then (start - stop - step - 1) div (- step) else 0))
         in Inr (map (\<lambda>k. nat (start + int k * step)) [0..<nat count])))"

definition take_indices :: "'a list \<Rightarrow> nat list \<Rightarrow> 'a list" where
  "take_indices xs is = map (\<lambda>i. xs ! i) is"

text \<open>\<^verbatim>\<open>a[k]\<close> with a Python integer index: a negative index counts from the end, an
  index out of range raises \<^verbatim>\<open>IndexError\<close>.\<close>

definition py_index :: "'a list \<Rightarrow> int \<Rightarrow> error + 'a" where
  "py_index xs k =
     (let n = int (length xs); j = (if k < 0 then k + n else k)
      in if 0 \<le> j \<and> j < n then Inr (xs ! nat j) else Inl IndexError)"

section \<open>Trajectory artifacts and their decoders\<close>

text \<open>
  A trajectory artifact as the loader reads it: the first and the second line that
  \<^verbatim>\<open>readline\<close> returns, and the numeric rows that \<^verbatim>\<open>np.loadtxt\<close> parses from the whole
  file (the two header lines are comment lines to \<^verbatim>\<open>np.loadtxt\<close>; tokenising decimal
  numbers is not modelled).
\<close>

record traj_file =
  line1 :: string
  line2 :: string
  table :: "real list list"

text \<open>What \<^verbatim>\<open>np.loadtxt\<close> returns: rows of different widths raise \<^verbatim>\<open>ValueError\<close>; the
  result is squeezed, so no row gives an empty one-dimensional array, a single row or a
  single column a one-dimensional array, anything else a two-dimensional one.\<close>

datatype ndarray = Arr1D "real list" | Arr2D "real list list"

definition np_loadtxt :: "real list list \<Rightarrow> error + ndarray" where
  "np_loadtxt rows =
     (case rows of
        [] \<Rightarrow> Inr (Arr1D [])
      | r # rs \<Rightarrow>
          if \<not> list_all (\<lambda>x. length x = length r) rs then Inl ValueError
          else if rs = [] then Inr (Arr1D r)
          else if length r = 1 then Inr (Arr1D (concat rows))
          else Inr (Arr2D rows))"

text \<open>\<^verbatim>\<open>len(a)\<close>, \<^verbatim>\<open>a[:, k]\<close> and \<^verbatim>\<open>a[rows, cols]\<close> with two slices: indexing a
  one-dimensional array with two indices raises \<^verbatim>\<open>IndexError\<close>.\<close>

definition nd_len :: "ndarray \<Rightarrow> nat" where
  "nd_len a = (case a of Arr1D xs \<Rightarrow> length xs | Arr2D rows \<Rightarrow> length rows)"

definition nd_col :: "ndarray \<Rightarrow> int \<Rightarrow> error + real list" where
  "nd_col a k =
     (case a of
        Arr1D xs \<Rightarrow> Inl IndexError
      | Arr2D rows \<Rightarrow>
          (let w = int (length (hd rows)); j = (if k < 0 then k + w else k)
           in if 0 \<le> j \<and> j < w then Inr (map (\<lambda>r. r ! nat j) rows) else Inl IndexError))"

definition nd_block :: "ndarray \<Rightarrow> pyslice \<Rightarrow> pyslice \<Rightarrow> error + real list list" where
  "nd_block a rs cs =
     (case a of
        Arr1D xs \<Rightarrow> Inl IndexError
      | Arr2D rows \<Rightarrow>
          bindE (slice_indices rs (length rows)) (\<lambda>ri.
          bindE (slice_indices cs (length (hd rows))) (\<lambda>ci.
            Inr (map (\<lambda>r. take_indices r ci) (take_indices rows ri)))))"

text \<open>\<^verbatim>\<open>astype(np.int64)\<close> truncates towards zero.\<close>

definition trunc_int :: "real \<Rightarrow> int" where
  "trunc_int x = (if 0 \<le> x then \<lfloor>x\<rfloor> else \<lceil>x\<rceil>)"

text \<open>
  \<^verbatim>\<open>reshape\<close> in row-major order. \<open>chunks k xs\<close> cuts \<open>xs\<close> into \<open>length xs div k\<close>
  pieces of length \<open>k\<close>. \<^verbatim>\<open>reshape(-1, N, M)\<close> raises \<^verbatim>\<open>ValueError\<close> when \<open>N\<close> or \<open>M\<close>
  is negative (a second unknown or a negative dimension), when \<open>N * M = 0\<close> (the unknown
  dimension cannot be determined) and when the size is not a multiple of \<open>N * M\<close>;
  \<^verbatim>\<open>reshape(N, M)\<close> when the size is not \<open>N * M\<close>.
\<close>

definition chunks :: "nat \<Rightarrow> 'a list \<Rightarrow> 'a list list" where
  "chunks k xs = map (\<lambda>i. take k (drop (i * k) xs)) [0..<length xs div k]"

definition reshape_frames :: "int \<Rightarrow> int \<Rightarrow> 'a list \<Rightarrow> error + 'a list list list" where
  "reshape_frames N M flat =
     (if N \<le> 0 \<or> M \<le> 0 \<or> int (length flat) mod (N * M) \<noteq> 0 then Inl ValueError
      else Inr (map (chunks (nat M)) (chunks (nat (N * M)) flat)))"

definition reshape_lattice :: "int \<Rightarrow> int \<Rightarrow> 'a list \<Rightarrow> error + 'a list list" where
  "reshape_lattice N M flat =
     (if N < 0 \<or> M < 0 \<or> int (length flat) \<noteq> N * M then Inl ValueError
      else if M = 0 then Inr (replicate (nat N) [])
      else Inr (chunks (nat M) flat))"

text \<open>\<^verbatim>\<open>_load_fullstate_traj\<close>: columns \<open>[frameIndex, N*M state values, time, dwellTime,
  energy]\<close>; columns past \<open>N*M + 3\<close> are not read.\<close>

definition load_fullstate_traj :: "PottsResult \<Rightarrow> traj_file \<Rightarrow> error + PottsResult" where
  "load_fullstate_traj self tf =
     bindE (np_loadtxt (table tf)) (\<lambda>rawTraj.
     bindE (param_int (params self) ''N'') (\<lambda>N.
     bindE (param_int (params self) ''M'') (\<lambda>M.
     bindE (nd_col rawTraj 0) (\<lambda>c0.
     bindE (nd_block rawTraj \<lparr>sl_start = None, sl_stop = None, sl_step = None\<rparr>
              \<lparr>sl_start = Some 1, sl_stop = Some (N * M + 1), sl_step = None\<rparr>) (\<lambda>block.
     bindE (reshape_frames N M (map trunc_int (concat block))) (\<lambda>frames.
     bindE (nd_col rawTraj (N * M + 1)) (\<lambda>T.
     bindE (nd_col rawTraj (N * M + 2)) (\<lambda>Dt.
     bindE (nd_col rawTraj (N * M + 3)) (\<lambda>E.
       Inr (self\<lparr>trajIdx := map trunc_int c0, traj := frames,
                 trajT := T, trajDt := Dt, trajEnergy := E\<rparr>))))))))))"

text \<open>
  \<^verbatim>\<open>np.array(map(int, tokens), dtype=np.int64)\<close>. The module is Python 3 (it uses
  f-strings), where \<^verbatim>\<open>map\<close> returns an iterator; numpy takes the iterator as one scalar
  object and converting it to \<^verbatim>\<open>int64\<close> raises \<^verbatim>\<open>TypeError\<close>, whatever the tokens are.
\<close>

definition np_array_of_map :: "string list \<Rightarrow> error + int list" where
  "np_array_of_map tokens = Inl TypeError"

text \<open>\<^verbatim>\<open>v.strip().split()\<close>: the maximal runs of non-whitespace characters.\<close>

fun split_ws_aux :: "string \<Rightarrow> string \<Rightarrow> string list" where
  "split_ws_aux w [] = (if w = [] then [] else [rev w])"
| "split_ws_aux w (c # cs) =
     (if is_space c then (if w = [] then split_ws_aux [] cs else rev w # split_ws_aux [] cs)
      else split_ws_aux (c # w) cs)"

definition split_ws :: "string \<Rightarrow> string list" where
  "split_ws s = split_ws_aux [] s"

text \<open>\<^verbatim>\<open>traj[step + 1, i, j] = nextSpin\<close> on a copy of the previous frame: integer indices
  with Python's wrap-around, \<^verbatim>\<open>IndexError\<close> out of range.\<close>

definition set_cell :: "int list list \<Rightarrow> int \<Rightarrow> int \<Rightarrow> int \<Rightarrow> error + int list list" where
  "set_cell f i j v =
     (let n = int (length f); r = (if i < 0 then i + n else i) in
      if \<not> (0 \<le> r \<and> r < n) then Inl IndexError
      else
        (let m = int (length (f ! nat r)); c = (if j < 0 then j + m else j) in
         if \<not> (0 \<le> c \<and> c < m) then Inl IndexError
         else Inr (f[nat r := (f ! nat r)[nat c := v]])))"

text \<open>The replay loop of \<^verbatim>\<open>_load_onlychange_traj\<close>:
  \<^verbatim>\<open>for step, (i, j, nextSpin) in enumerate(suggests)\<close> copies frame \<open>step\<close> into frame
  \<open>step + 1\<close> and overwrites one cell there.\<close>

fun replay :: "int list list list \<Rightarrow> nat \<Rightarrow> int list list \<Rightarrow> error + int list list list" where
  "replay frames step [] = Inr frames"
| "replay frames step (s # rest) =
     (case s of
        [i, j, nextSpin] \<Rightarrow>
          bindE (set_cell (frames ! step) i j nextSpin) (\<lambda>f.
            replay (frames[Suc step := f]) (Suc step) rest)
      | _ \<Rightarrow> Inl ValueError)"

definition load_onlychange_traj :: "PottsResult \<Rightarrow> traj_file \<Rightarrow> error + PottsResult" where
  "load_onlychange_traj self tf =
     bindE (param_int (params self) ''N'') (\<lambda>N.
     bindE (param_int (params self) ''M'') (\<lambda>M.
       (case map py_strip (split_on (CHR ''='') (py_strip (line2 tf))) of
          [k, v] \<Rightarrow>
            if \<not> contains ''Initial State'' k then Inl KeyError
            else
              bindE (np_array_of_map (split_ws (py_strip v))) (\<lambda>flat.
              bindE (reshape_lattice N M flat) (\<lambda>initialState.
              bindE (np_loadtxt (table tf)) (\<lambda>rawSuggests.
              bindE (nd_block rawSuggests
                       \<lparr>sl_start = None, sl_stop = Some (- 1), sl_step = None\<rparr>
                       \<lparr>sl_start = None, sl_stop = Some 3, sl_step = None\<rparr>) (\<lambda>suggests.
              bindE (nd_col rawSuggests 3) (\<lambda>T.
              bindE (nd_col rawSuggests 4) (\<lambda>Dt.
              bindE (nd_col rawSuggests 5) (\<lambda>E.
              bindE (replay (replicate (nd_len rawSuggests) initialState) 0
                       (map (map trunc_int) suggests)) (\<lambda>frames.
                Inr (self\<lparr>trajIdx := map int [0..<nd_len rawSuggests], traj := frames,
                          trajT := T, trajDt := Dt, trajEnergy := E\<rparr>)))))))))
        | _ \<Rightarrow> Inl ValueError)))"

text \<open>\<^verbatim>\<open>re.search(r"FullState|OnlyChange", line)\<close>: the leftmost occurrence of either
  marker.\<close>

fun search_marker :: "string \<Rightarrow> string option" where
  "search_marker [] = None"
| "search_marker (c # cs) =
     (if starts_with ''FullState'' (c # cs) then Some ''FullState''
      else if starts_with ''OnlyChange'' (c # cs) then Some ''OnlyChange''
      else search_marker cs)"

text \<open>The property \<^verbatim>\<open>totalTime\<close>: \<^verbatim>\<open>trajT[-1] + trajDt[-1] - trajT[0]\<close>.\<close>

definition totalTime :: "PottsResult \<Rightarrow> error + real" where
  "totalTime self =
     bindE (py_index (trajT self) (- 1)) (\<lambda>tl.
     bindE (py_index (trajDt self) (- 1)) (\<lambda>dl.
     bindE (py_index (trajT self) 0) (\<lambda>t0. Inr (tl + dl - t0))))"

definition load_traj :: "PottsResult \<Rightarrow> traj_file \<Rightarrow> error + PottsResult" where
  "load_traj self tf =
     (case search_marker (line1 tf) of
        None \<Rightarrow> Inl KeyError
      | Some trajType \<Rightarrow>
          if trajType = ''FullState''
          then bindE (load_fullstate_traj self tf) (\<lambda>s.
                 Inr (s\<lparr>totalSampleTime := sum_list (trajDt s)\<rparr>))
          else bindE (load_onlychange_traj self tf) (\<lambda>s.
                 bindE (totalTime s) (\<lambda>t. Inr (s\<lparr>totalSampleTime := t\<rparr>))))"

text \<open>The dense sequence that a list of single-cell flips describes: frame \<open>0\<close> is the
  initial state, every further frame the previous one with one cell overwritten. This is
  the state block of the equivalent FullState artifact.\<close>

fun apply_flips :: "int list list \<Rightarrow> int list list \<Rightarrow> error + int list list list" where
  "apply_flips f [] = Inr [f]"
| "apply_flips f (s # rest) =
     (case s of
        [i, j, nextSpin] \<Rightarrow>
          bindE (set_cell f i j nextSpin) (\<lambda>g.
          bindE (apply_flips g rest) (\<lambda>gs. Inr (f # gs)))
      | _ \<Rightarrow> Inl ValueError)"

section \<open>Slicing\<close>

text \<open>\<^verbatim>\<open>params["recordFreq"] == 1\<close>: an \<^verbatim>\<open>int\<close> or a \<^verbatim>\<open>float\<close> equal to one.\<close>

definition param_is_one :: "pvalue \<Rightarrow> bool" where
  "param_is_one v = (case v of PInt n \<Rightarrow> n = 1 | PFloat x \<Rightarrow> x = 1 | PStr s \<Rightarrow> False)"

text \<open>
  \<^verbatim>\<open>__getitem__\<close>. \<^verbatim>\<open>deepcopy(self)\<close> is an object that shares nothing with \<^verbatim>\<open>self\<close>, and
  every assignment that follows goes to an attribute of the copy. The model returns the
  pair (\<^verbatim>\<open>self\<close> after the call, the new object), so that what the call does to
  \<^verbatim>\<open>self\<close> is part of its result.
\<close>

definition getitem :: "PottsResult \<Rightarrow> pyslice \<Rightarrow> error + (PottsResult \<times> PottsResult)" where
  "getitem self sl =
     (let newItem = self in
      bindE (slice_indices sl (length (trajIdx newItem))) (\<lambda>i0.
      bindE (slice_indices sl (length (traj newItem))) (\<lambda>i1.
      bindE (slice_indices sl (length (trajT newItem))) (\<lambda>i2.
      bindE (slice_indices sl (length (trajDt newItem))) (\<lambda>i3.
      bindE (slice_indices sl (length (trajEnergy newItem))) (\<lambda>i4.
        (let newItem = newItem\<lparr>trajIdx := take_indices (trajIdx newItem) i0,
                                 traj := take_indices (traj newItem) i1,
                                 trajT := take_indices (trajT newItem) i2,
                                 trajDt := take_indices (trajDt newItem) i3,
                                 trajEnergy := take_indices (trajEnergy newItem) i4,
                                 properties := Map.empty\<rparr>
         in (case params newItem ''recordFreq'' of
               None \<Rightarrow> Inl KeyError
             | Some rf \<Rightarrow>
                 if param_is_one rf
                 then bindE (totalTime newItem) (\<lambda>t.
                        Inr (self, newItem\<lparr>totalSampleTime := t\<rparr>))
                 else Inr (self, newItem\<lparr>totalSampleTime := sum_list (trajDt newItem)\<rparr>)))))))))"

section \<open>The parameter log\<close>

datatype ptype = TInt | TFloat | TStr

definition PARAM_TRANS :: "(string \<times> ptype) list" where
  "PARAM_TRANS =
     [(''N'', TInt), (''M'', TInt), (''q'', TInt), (''steps'', TInt), (''recordFreq'', TInt),
      (''randomSeed'', TInt), (''J'', TFloat), (''B'', TFloat), (''T'', TFloat),
      (''tau'', TFloat), (''jobName'', TStr)]"

text \<open>
  \<^verbatim>\<open>PARAM_TRANS[k](v)\<close>. Python's \<^verbatim>\<open>int\<close> and \<^verbatim>\<open>float\<close> on a string are parameters
  \<open>int_of\<close> and \<open>float_of\<close> of the model (\<open>None\<close> where the built-in raises
  \<^verbatim>\<open>ValueError\<close>); \<^verbatim>\<open>str\<close> returns the string.
\<close>

definition coerce ::
  "(string \<Rightarrow> int option) \<Rightarrow> (string \<Rightarrow> real option) \<Rightarrow> ptype \<Rightarrow> string \<Rightarrow> error + pvalue" where
  "coerce int_of float_of t v =
     (case t of
        TInt \<Rightarrow> (case int_of v of None \<Rightarrow> Inl ValueError | Some n \<Rightarrow> Inr (PInt n))
      | TFloat \<Rightarrow> (case float_of v of None \<Rightarrow> Inl ValueError | Some x \<Rightarrow> Inr (PFloat x))
      | TStr \<Rightarrow> Inr (PStr v))"

text \<open>\<^verbatim>\<open>d[k] = v\<close> on a dictionary kept as an association list in insertion order.\<close>

fun dict_set :: "'k \<Rightarrow> 'v \<Rightarrow> ('k \<times> 'v) list \<Rightarrow> ('k \<times> 'v) list" where
  "dict_set k v [] = [(k, v)]"
| "dict_set k v (p # ps) = (if fst p = k then (k, v) # ps else p # dict_set k v ps)"

text \<open>The lines of a text as \<^verbatim>\<open>readline\<close> returns them, each with its line feed; the
  loop that reads up to the line \<^verbatim>\<open>"PARAMS\n"\<close> and \<^verbatim>\<open>r.read()\<close> of what follows.\<close>

fun splitlines :: "string \<Rightarrow> string list" where
  "splitlines [] = []"
| "splitlines (c # cs) =
     (if c = newline then [c] # splitlines cs
      else (case splitlines cs of [] \<Rightarrow> [[c]] | l # ls \<Rightarrow> (c # l) # ls))"

fun find_params :: "string list \<Rightarrow> error + string" where
  "find_params [] = Inl ValueError"
| "find_params (l # ls) = (if l = ''PARAMS'' @ [newline] then Inr (concat ls) else find_params ls)"

text \<open>
  One match of \<^verbatim>\<open>^\w+\s*=\s*\S+.*$\<close> (with \<^verbatim>\<open>re.MULTILINE\<close>) at the start of a line: the
  word, whitespace (line feeds included), the equals sign, whitespace, one non-whitespace
  character and the rest of that line. The three classes and the equals sign are
  disjoint, so the greedy match is the only one. The result is the matched text and the
  text after it.
\<close>

definition match_param :: "string \<Rightarrow> (string \<times> string) option" where
  "match_param s =
     (let w = takeWhile is_word s; r1 = dropWhile is_word s;
          s1 = takeWhile is_space r1; r2 = dropWhile is_space r1
      in if w = [] then None
         else (case r2 of
                 [] \<Rightarrow> None
               | c # r3 \<Rightarrow>
                   if c \<noteq> CHR ''='' then None
                   else
                     (let s2 = takeWhile is_space r3; r4 = dropWhile is_space r3
                      in if r4 = [] then None
                         else Some (w @ s1 @ [c] @ s2 @ takeWhile (\<lambda>x. x \<noteq> newline) r4,
                                    dropWhile (\<lambda>x. x \<noteq> newline) r4))))"

lemma match_param_shorter:
  assumes "match_param s = Some (m, rest)"
  shows "length rest < length s"
proof -
  have a: "length (dropWhile P xs) \<le> length xs" for P and xs :: string
    by (rule length_dropWhile_le)
  obtain c r3 where w: "takeWhile is_word s \<noteq> []"
    and r2: "dropWhile is_space (dropWhile is_word s) = c # r3"
    and r: "rest = dropWhile (\<lambda>x. x \<noteq> newline) (dropWhile is_space r3)"
    using assms unfolding match_param_def Let_def
    by (auto split: if_splits list.splits)
  have "length (dropWhile is_word s) < length s"
    using w by (cases s) (auto simp: le_imp_less_Suc length_dropWhile_le split: if_splits)
  moreover have "length rest \<le> length r3"
    unfolding r
    using a [of "\<lambda>x. x \<noteq> newline" "dropWhile is_space r3"] a [of is_space r3] by linarith
  moreover have "length (c # r3) \<le> length (dropWhile is_word s)"
    using a [of is_space "dropWhile is_word s"] r2 by simp
  ultimately show ?thesis by simp
qed

text \<open>\<^verbatim>\<open>re.findall\<close>: the text is scanned from the left; a match is tried at the start of
  the text and after every line feed, and the scan resumes where a match ended.\<close>

function findall_params :: "bool \<Rightarrow> string \<Rightarrow> string list" where
  "findall_params b [] = []"
| "findall_params b (c # cs) =
     (if b
      then (case match_param (c # cs) of
              Some (m, rest) \<Rightarrow> m # findall_params False rest
            | None \<Rightarrow> findall_params (c = newline) cs)
      else findall_params (c = newline) cs)"
  by pat_completeness auto
termination
  by (relation "measure (\<lambda>(b, s). length s)") (auto dest: match_param_shorter)

text \<open>The loop over the matches: \<^verbatim>\<open>k, v = [s.strip() for s in rawParam.split('=')]\<close>
  raises \<^verbatim>\<open>ValueError\<close> unless there are exactly two parts; \<^verbatim>\<open>PARAM_TRANS[k]\<close> raises
  \<^verbatim>\<open>KeyError\<close> on a name that is not registered.\<close>

fun parse_params ::
  "(string \<Rightarrow> int option) \<Rightarrow> (string \<Rightarrow> real option) \<Rightarrow> (string \<times> pvalue) list \<Rightarrow> string list
     \<Rightarrow> error + (string \<times> pvalue) list" where
  "parse_params int_of float_of d [] = Inr d"
| "parse_params int_of float_of d (rawParam # rest) =
     (case map py_strip (split_on (CHR ''='') rawParam) of
        [k, v] \<Rightarrow>
          (case map_of PARAM_TRANS k of
             None \<Rightarrow> Inl KeyError
           | Some t \<Rightarrow>
               bindE (coerce int_of float_of t v) (\<lambda>x.
                 parse_params int_of float_of (dict_set k x d) rest))
      | _ \<Rightarrow> Inl ValueError)"

definition from_log ::
  "(string \<Rightarrow> int option) \<Rightarrow> (string \<Rightarrow> real option) \<Rightarrow> string \<Rightarrow> error + (string \<times> pvalue) list" where
  "from_log int_of float_of logText =
     bindE (find_params (splitlines logText)) (\<lambda>rest.
     bindE (parse_params int_of float_of [] (findall_params True rest)) (\<lambda>d.
       if set (map fst d) \<noteq> set (map fst PARAM_TRANS) then Inl ValueError else Inr d))"

text \<open>\<^verbatim>\<open>PottsResult.__init__\<close>: the parameters from the log, then the trajectory. The
  trajectory attributes do not exist before \<^verbatim>\<open>load_traj\<close> assigns them; the record
  holds empty arrays there.\<close>

definition PottsResult_init ::
  "(string \<Rightarrow> int option) \<Rightarrow> (string \<Rightarrow> real option) \<Rightarrow> string \<Rightarrow> traj_file \<Rightarrow> error + PottsResult" where
  "PottsResult_init int_of float_of logText tf =
     bindE (from_log int_of float_of logText) (\<lambda>d.
       load_traj \<lparr>params = map_of d, kB = 1, properties = Map.empty, trajIdx = [], traj = [],
                  trajT = [], trajDt = [], trajEnergy = [], totalSampleTime = 0\<rparr> tf)"

text \<open>The name on a matched line, and malformed input in the spec's words: no
  \<^verbatim>\<open>PARAMS\<close> line, parsed names different from the required set, no type marker in the
  first trajectory line, or an OnlyChange artifact whose second line has no
  \<^verbatim>\<open>Initial State\<close> entry.\<close>

definition key_of :: "string \<Rightarrow> string" where
  "key_of rawParam = py_strip (hd (split_on (CHR ''='') rawParam))"

definition spec_malformed :: "string \<Rightarrow> traj_file \<Rightarrow> bool" where
  "spec_malformed logText tf =
     ((case find_params (splitlines logText) of
         Inl e \<Rightarrow> True
       | Inr rest \<Rightarrow>
           set (map key_of (findall_params True rest)) \<noteq> set (map fst PARAM_TRANS))
      \<or> search_marker (line1 tf) = None
      \<or> (search_marker (line1 tf) = Some ''OnlyChange''
          \<and> \<not> contains ''Initial State'' (line2 tf)))"

section \<open>The trajectory invariant\<close>

text \<open>
  A numpy array is rectangular, and the loaders reshape the lattice block to
  \<open>(-1, N, M)\<close>: every frame has \<open>N\<close> rows of \<open>M\<close> entries, and the five per-frame
  arrays have one entry per frame. The predicate states this for the nested lists of
  the model (the spec's trajectory invariant).
\<close>

definition lattice_shape :: "nat \<Rightarrow> nat \<Rightarrow> 'a list list \<Rightarrow> bool" where
  "lattice_shape n m f = (length f = n \<and> list_all (\<lambda>r. length r = m) f)"

definition valid_trajectory :: "PottsResult \<Rightarrow> bool" where
  "valid_trajectory self =
     (case (param_int (params self) ''N'', param_int (params self) ''M'') of
        (Inr N, Inr M) \<Rightarrow>
        0 < N \<and> 0 < M
        \<and> list_all (lattice_shape (nat N) (nat M)) (traj self)
        \<and> length (trajIdx self) = length (traj self)
        \<and> length (trajT self) = length (traj self)
        \<and> length (trajDt self) = length (traj self)
        \<and> length (trajEnergy self) = length (traj self)
      | _ \<Rightarrow> False)"

text \<open>The spec's concrete scenario: a \<open>2 \<times> 2\<close> lattice, three frames.\<close>

definition scenario :: PottsResult where
  "scenario =
     \<lparr> params = [''N'' \<mapsto> PInt 2, ''M'' \<mapsto> PInt 2, ''q'' \<mapsto> PInt 2, ''recordFreq'' \<mapsto> PInt 1],
       kB = 1,
       properties = Map.empty,
       trajIdx = [0, 1, 2],
       traj = [[[0, 0], [0, 0]], [[1, 0], [0, 0]], [[1, 0], [0, 0]]],
       trajT = [0, 1, 3],
       trajDt = [1, 2, 1],
       trajEnergy = [0, 1, 1],
       totalSampleTime = 4 \<rparr>"

text \<open>The square of every lattice entry fits in \<^verbatim>\<open>int64\<close>: the product of the lattice
  with itself does not wrap. Spin labels in \<open>[0, q)\<close> satisfy it for every
  \<open>q \<le> 3037000500\<close>.\<close>

definition squares_fit_int64 :: "PottsResult \<Rightarrow> bool" where
  "squares_fit_int64 self = list_all (list_all (list_all (\<lambda>x. x * x < 2 ^ 63))) (traj self)"

text \<open>The squared lattice, and the per-frame spatial variance in the spec's words:
  the spatial mean of the squared lattice minus the square of the spatial mean.\<close>

definition lattice_sq :: "real list list \<Rightarrow> real list list" where
  "lattice_sq f = map (map (\<lambda>x. x * x)) f"

definition spec_frame_spatial_variance :: "real list list \<Rightarrow> real" where
  "spec_frame_spatial_variance f = frame_mean (lattice_sq f) - (frame_mean f)\<^sup>2"




text \<open>A result object before \<^verbatim>\<open>load_traj\<close>, a FullState artifact of three frames on a
  \<open>2 \<times> 2\<close> lattice, and an OnlyChange artifact of three rows.\<close>

definition blank_result :: PottsResult where
  "blank_result =
     \<lparr> params = [''N'' \<mapsto> PInt 2, ''M'' \<mapsto> PInt 2, ''recordFreq'' \<mapsto> PInt 1],
       kB = 1, properties = Map.empty, trajIdx = [], traj = [], trajT = [], trajDt = [],
       trajEnergy = [], totalSampleTime = 0 \<rparr>"

definition fullstate_example :: traj_file where
  "fullstate_example =
     \<lparr> line1 = ''# FullState'',
       line2 = ''0 0 0 0 0 0 1 0'',
       table = [[0, 0, 0, 0, 0, 0, 1, 0],
                [1, 1, 0, 0, 0, 1, 1, 1],
                [2, 1, 0, 0, 0, 3, 1, 1]] \<rparr>"


definition example_rows :: "real list list" where
  "example_rows = [[0, 0, 0, 0, 0, 0, 1, 0],
                   [1, 1, 0, 0, 0, 1, 1, 1],
                   [2, 1, 0, 0, 0, 3, 1, 1]]"

definition onlychange_example :: traj_file where
  "onlychange_example =
     \<lparr> line1 = ''# OnlyChange'',
       line2 = ''# Initial State = 0 0 0 0'',
       table = [[0, 0, 1, 0, 1, 0],
                [0, 0, 1, 1, 1, 1],
                [0, 0, 1, 3, 1, 1]] \<rparr>"

text \<open>
  Coercions and logs for the concrete inputs below. \<open>decimal_int\<close> and \<open>decimal_float\<close>
  agree with Python's \<^verbatim>\<open>int\<close> and \<^verbatim>\<open>float\<close> on strings of decimal digits with an
  optional leading minus sign and are undefined elsewhere; the general theorems hold for
  every pair of coercions.
\<close>

definition digit_of :: "char \<Rightarrow> nat option" where
  "digit_of c = (let n = of_char c :: nat in if 48 \<le> n \<and> n \<le> 57 then Some (n - 48) else None)"

fun decimal_nat :: "nat \<Rightarrow> string \<Rightarrow> nat option" where
  "decimal_nat acc [] = Some acc"
| "decimal_nat acc (c # cs) =
     (case digit_of c of None \<Rightarrow> None | Some d \<Rightarrow> decimal_nat (10 * acc + d) cs)"

definition decimal_int :: "string \<Rightarrow> int option" where
  "decimal_int s =
     (case s of
        [] \<Rightarrow> None
      | c # cs \<Rightarrow>
          if c = CHR ''-'' then (if cs = [] then None else map_option (\<lambda>n. - int n) (decimal_nat 0 cs))
          else map_option int (decimal_nat 0 s))"

definition decimal_float :: "string \<Rightarrow> real option" where
  "decimal_float s = map_option real_of_int (decimal_int s)"

definition unlines :: "string list \<Rightarrow> string" where
  "unlines ls = concat (map (\<lambda>l. l @ [newline]) ls)"

definition example_log :: string where
  "example_log = unlines [''PottsKMC run'', ''PARAMS'', ''N = 2'', ''M = 2'', ''q = 2'',
     ''steps = 3'', ''recordFreq = 1'', ''randomSeed = 1234'', ''J = 1'', ''B = 0'', ''T = 1'',
     ''tau = 10'', ''jobName = potts'']"

definition example_log_extra :: string where
  "example_log_extra = example_log @ unlines [''extra = 1'']"

definition example_log_equals :: string where
  "example_log_equals = unlines [''PottsKMC run'', ''PARAMS'', ''N = 2'', ''M = 2'', ''q = 2'',
     ''steps = 3'', ''recordFreq = 1'', ''randomSeed = 1234'', ''J = 1'', ''B = 0'', ''T = 1'',
     ''tau = 10'', ''jobName = a=b'']"

section \<open>Estimator theorems\<close>


text \<open>
  Claim C3. In the concrete three-frame scenario (dwell times \<open>[1, 2, 1]\<close>, energies
  \<open>[0, 1, 1]\<close>, total sample time \<open>4\<close>) the time-weighted mean of the energy is exactly
  \<open>0.75\<close> and its time-weighted variance exactly \<open>0.1875\<close>.
\<close>

theorem scenario_mean_var:
  "trajDt scenario = [1, 2, 1] \<and> trajEnergy scenario = [0, 1, 1]
   \<and> totalSampleTime scenario = 4
   \<and> calculate_mean scenario (trajEnergy scenario) = 0.75
   \<and> calculate_var scenario (trajEnergy scenario) = 0.1875"
  by (simp add: scenario_def calculate_mean_def calculate_var_def power2_eq_square)





text \<open>
  Claim C4 at an explicit cutoff. On the valid scenario, \<^verbatim>\<open>recalculate_lambda(cutoff=1)\<close> raises
  \<^verbatim>\<open>UnboundLocalError\<close>: \<^verbatim>\<open>Nmax\<close> is assigned only when the cutoff is \<^verbatim>\<open>None\<close>. The claim
  promises \<open>Lambda[k] = (C(k,0) + C(0,k)) / 2\<close> for an explicit cutoff too; the default
  path does return it (lemma \<open>recalculate_lambda_default\<close> below).
\<close>

theorem recalculate_lambda_cutoff_unbound:
  "valid_trajectory scenario \<and> recalculate_lambda scenario (Some 1) = Inl UnboundLocalError"
  by (simp add: recalculate_lambda_def valid_trajectory_def scenario_def param_int_def lattice_shape_def)

section \<open>Correlation theorems\<close>

lemmas eval_defs = calculate_spatial_correlation_def scenario_def param_int_def calculate_mean_3d_def
   sum_axis0_def lattice_add_def lattice_zeros_def to_real_traj_def roll_frame_def frame_mean_def
   calculate_mean_def calculate_var_of_mean_def bindE_def lattice_sq_def spec_frame_spatial_variance_def
   wrap_int64_def

text \<open>
  Claim C6 as stated fails. In the spec's scenario \<open>C(0,0) = 3/64\<close>, while the time-weighted
  mean of the per-frame spatial variance (spatial mean of the squared lattice minus the
  square of the spatial mean) is \<open>9/64\<close>.
\<close>

theorem self_correlation_not_spatial_variance: "valid_trajectory scenario \<and> (\<exists>e. calculate_spatial_correlation scenario 0 0 = Inr (3/64, e))
  \<and> calculate_mean scenario (map spec_frame_spatial_variance (to_real_traj (traj scenario))) = 9/64"
  by (simp add: eval_defs valid_trajectory_def lattice_shape_def numeral_2_eq_2 Let_def)

lemma roll_frame_0: "roll_frame 0 0 = (\<lambda>f. f)"
  by (rule ext) (simp add: roll_frame_def)

lemma map2_same: "map2 f xs xs = map (\<lambda>x. f x x) xs"
  by (induction xs) auto

lemma sum_list_map2_diff:
  fixes a b :: "real list"
  shows "length a = length b \<Longrightarrow> sum_list (map2 (-) a b) = sum_list a - sum_list b"
  by (induction a b rule: list_induct2) auto

lemma sum_concat_map2_diff:
  fixes a b :: "real list list"
  assumes "lattice_shape n m a" "lattice_shape n m b"
  shows "sum_list (concat (map2 (map2 (-)) a b)) = sum_list (concat a) - sum_list (concat b)"
proof -
  have len: "length a = length b" using assms by (simp add: lattice_shape_def)
  have "list_all (\<lambda>r. length r = m) a \<Longrightarrow> list_all (\<lambda>r. length r = m) b \<Longrightarrow> ?thesis"
    using len
    by (induction a b rule: list_induct2) (auto simp: sum_list_map2_diff)
  then show ?thesis using assms by (simp add: lattice_shape_def)
qed

lemma length_concat_shape: "lattice_shape n m a \<Longrightarrow> length (concat a) = n * m"
  unfolding lattice_shape_def
proof (induction a arbitrary: n)
  case Nil then show ?case by simp
next
  case (Cons r a)
  then have "length (concat a) = length a * m" by simp
  with Cons.prems show ?case by auto
qed

lemma shape_map2:
  "lattice_shape n m a \<Longrightarrow> lattice_shape n m b \<Longrightarrow> lattice_shape n m (map2 (map2 f) a b)"
  unfolding lattice_shape_def
  by (induction a b arbitrary: n rule: list_induct2') auto

lemma shape_map: "lattice_shape n m a \<Longrightarrow> lattice_shape n m (map (map f) a)"
  unfolding lattice_shape_def by (induction a arbitrary: n) auto

lemma frame_mean_diff:
  assumes "lattice_shape n m a" "lattice_shape n m b"
  shows "frame_mean (map2 (map2 (-)) a b) = frame_mean a - frame_mean b"
proof -
  have "lattice_shape n m (map2 (map2 (-)) a b)" using assms by (rule shape_map2)
  then show ?thesis
    using assms
    by (simp add: frame_mean_def length_concat_shape sum_concat_map2_diff diff_divide_distrib)
qed

lemma shape_zeros: "lattice_shape n m (lattice_zeros n m)"
  by (simp add: lattice_shape_def lattice_zeros_def list_all_length)

lemma shape_sum_axis0:
  "list_all (lattice_shape n m) fs \<Longrightarrow> lattice_shape n m (sum_axis0 n m fs)"
  unfolding sum_axis0_def
  by (induction fs) (auto simp: shape_zeros lattice_add_def shape_map2)

lemma shape_scaled:
  "list_all (lattice_shape n m) q \<Longrightarrow>
   list_all (lattice_shape n m) (map2 (\<lambda>f d. map (map (\<lambda>x. x * d)) f) q ds)"
  by (induction q ds rule: list_induct2') (auto simp: shape_map)

lemma shape_calculate_mean_3d:
  "list_all (lattice_shape n m) q \<Longrightarrow> lattice_shape n m (calculate_mean_3d self n m q)"
  unfolding calculate_mean_3d_def
  by (intro shape_map shape_sum_axis0 shape_scaled)

lemma shape_to_real:
  "list_all (lattice_shape n m) q \<Longrightarrow> list_all (lattice_shape n m) (to_real_traj q)"
  unfolding to_real_traj_def
  by (induction q) (auto simp: shape_map)


lemma valid_trajectoryD:
  assumes "valid_trajectory self"
  obtains N M where "param_int (params self) ''N'' = Inr N" "param_int (params self) ''M'' = Inr M"
    "0 < N" "0 < M" "list_all (lattice_shape (nat N) (nat M)) (traj self)"
    "length (trajDt self) = length (traj self)"
  using assms unfolding valid_trajectory_def
  by (auto split: sum.splits)

text \<open>
  Claim C6, amended. For every valid trajectory whose lattice entries have squares within
  the \<^verbatim>\<open>int64\<close> range, \<open>C(0,0)\<close> is the time-weighted mean over
  frames of: the spatial mean of the squared lattice of the frame, minus the spatial mean
  of the squared site-wise time-mean lattice \<^verbatim>\<open>aveSigma\<close> (the connected correlator); the
  code subtracts the square of the time mean at each site, not the square of the spatial
  mean within the frame.
\<close>

lemma wrap_int64_id: "- (2 ^ 63) \<le> x \<Longrightarrow> x < 2 ^ 63 \<Longrightarrow> wrap_int64 x = x"
  by (simp add: wrap_int64_def)

text \<open>Beyond that range the product wraps: a lattice entry \<open>4 \<cdot> 10\<^sup>9\<close> has the square
  \<open>16 \<cdot> 10\<^sup>1\<^sup>8\<close>, stored as \<open>16 \<cdot> 10\<^sup>1\<^sup>8 - 2\<^sup>6\<^sup>4\<close>.\<close>

lemma wrap_int64_large_square:
  "wrap_int64 (4000000000 * 4000000000) = - 2446744073709551616"
  by (simp add: wrap_int64_def)

lemma wrap_int64_square:
  assumes "x * x < 2 ^ 63"
  shows "wrap_int64 (x * x) = x * x"
proof (rule wrap_int64_id)
  have "- (2 ^ 63) \<le> (0::int)" by simp
  also have "0 \<le> x * x" by simp
  finally show "- (2 ^ 63) \<le> x * x" .
  show "x * x < 2 ^ 63" by (rule assms)
qed

theorem self_correlation_connected:
  assumes "valid_trajectory self"
    and "param_int (params self) ''N'' = Inr N" and "param_int (params self) ''M'' = Inr M"
    and "aveSigma = calculate_mean_3d self (nat N) (nat M) (to_real_traj (traj self))"
    and fit: "squares_fit_int64 self"
  shows "\<exists>err. calculate_spatial_correlation self 0 0 =
           Inr (calculate_mean self
                  (map (\<lambda>f. frame_mean (lattice_sq f) - frame_mean (lattice_sq aveSigma))
                     (to_real_traj (traj self))),
                err)"
proof -
  have shp: "list_all (lattice_shape (nat N) (nat M)) (traj self)"
    using assms(1-3) by (auto elim!: valid_trajectoryD)
  have sa: "lattice_shape (nat N) (nat M) aveSigma"
    unfolding assms(4) by (intro shape_calculate_mean_3d shape_to_real shp)
  have sa2: "lattice_shape (nat N) (nat M) (map2 (map2 (*)) aveSigma aveSigma)"
    using sa by (intro shape_map2)
  have sq_a: "map2 (map2 (*)) aveSigma aveSigma = lattice_sq aveSigma"
    by (simp add: lattice_sq_def map2_same)
  have frame: "frame_mean (map2 (map2 (-)) (map2 (map2 (\<lambda>s t. real_of_int (wrap_int64 (s * t)))) f f)
                  (map2 (map2 (*)) aveSigma aveSigma))
             = frame_mean (lattice_sq (map (map real_of_int) f)) - frame_mean (lattice_sq aveSigma)"
    if "lattice_shape (nat N) (nat M) f" and b: "list_all (list_all (\<lambda>x. x * x < 2 ^ 63)) f"
    for f :: "int list list"
  proof -
    have "map2 (map2 (\<lambda>s t. real_of_int (wrap_int64 (s * t)))) f f
            = map (map (\<lambda>x. real_of_int (wrap_int64 (x * x)))) f"
      by (simp add: map2_same)
    also have "\<dots> = map (map (\<lambda>x. real_of_int x * real_of_int x)) f"
      using b by (intro map_cong refl) (auto simp: list_all_iff wrap_int64_square)
    also have "\<dots> = lattice_sq (map (map real_of_int) f)"
      by (simp add: lattice_sq_def comp_def)
    finally have e: "map2 (map2 (\<lambda>s t. real_of_int (wrap_int64 (s * t)))) f f
                       = lattice_sq (map (map real_of_int) f)" .
    have "lattice_shape (nat N) (nat M) (lattice_sq (map (map real_of_int) f))"
      unfolding lattice_sq_def using that(1) by (intro shape_map)
    then show ?thesis
      unfolding e sq_a using sa2 [unfolded sq_a] by (rule frame_mean_diff)
  qed
  have "map frame_mean
          (map2 (\<lambda>sf f. map2 (map2 (-)) (map2 (map2 (\<lambda>s t. real_of_int (wrap_int64 (s * t)))) sf f)
                          (map2 (map2 (*)) aveSigma aveSigma))
             (traj self) (traj self))
        = map (\<lambda>f. frame_mean (lattice_sq f) - frame_mean (lattice_sq aveSigma))
            (to_real_traj (traj self))"
  proof -
    have "map frame_mean
          (map2 (\<lambda>sf f. map2 (map2 (-)) (map2 (map2 (\<lambda>s t. real_of_int (wrap_int64 (s * t)))) sf f)
                          (map2 (map2 (*)) aveSigma aveSigma))
             (traj self) (traj self))
        = map (\<lambda>f. frame_mean (map2 (map2 (-)) (map2 (map2 (\<lambda>s t. real_of_int (wrap_int64 (s * t)))) f f)
                          (map2 (map2 (*)) aveSigma aveSigma))) (traj self)"
      unfolding map2_same [of _ "traj self"] by (simp add: comp_def)
    also have "\<dots> = map (\<lambda>f. frame_mean (lattice_sq (map (map real_of_int) f))
                           - frame_mean (lattice_sq aveSigma)) (traj self)"
      using shp fit
      by (intro map_cong refl frame) (simp_all add: list_all_iff squares_fit_int64_def)
    also have "\<dots> = map (\<lambda>f. frame_mean (lattice_sq f) - frame_mean (lattice_sq aveSigma))
            (to_real_traj (traj self))"
      by (simp add: to_real_traj_def comp_def)
    finally show ?thesis .
  qed
  then show ?thesis
    using assms(2-4)
    by (simp add: calculate_spatial_correlation_def bindE_def roll_frame_0 Let_def)
qed

theorem self_correlation_connected_witness:
  "\<exists>err. calculate_spatial_correlation scenario 0 0 =
           Inr (calculate_mean scenario
                  (map (\<lambda>f. frame_mean (lattice_sq f) - frame_mean (lattice_sq [[3/4, 0], [0, 0]]))
                     (to_real_traj (traj scenario))),
                err)"
proof -
  have v: "valid_trajectory scenario"
    by (simp add: valid_trajectory_def scenario_def param_int_def lattice_shape_def)
  have n: "param_int (params scenario) ''N'' = Inr 2" and m: "param_int (params scenario) ''M'' = Inr 2"
    by (simp_all add: scenario_def param_int_def)
  have a: "[[3/4, 0], [0, 0]] = calculate_mean_3d scenario (nat 2) (nat 2) (to_real_traj (traj scenario))"
    by (simp add: eval_defs numeral_2_eq_2)
  have f: "squares_fit_int64 scenario"
    by (simp add: squares_fit_int64_def scenario_def)
  show ?thesis using self_correlation_connected [OF v n m a f] .
qed

lemma mapE_Inr: "(\<And>x. x \<in> set xs \<Longrightarrow> f x = Inr (g x)) \<Longrightarrow> mapE f xs = Inr (map g xs)"
  by (induction xs) (auto simp: bindE_def)

lemma calculate_spatial_correlation_total:
  assumes "param_int (params self) ''N'' = Inr N" and "param_int (params self) ''M'' = Inr M"
  shows "calculate_spatial_correlation self i j = Inr (projr (calculate_spatial_correlation self i j))"
proof -
  have "\<exists>p. calculate_spatial_correlation self i j = Inr p"
    unfolding calculate_spatial_correlation_def assms bindE_def Let_def by simp
  then show ?thesis by auto
qed

lemma recalculate_lambda_default:
  assumes N: "param_int (params self) ''N'' = Inr N" and M: "param_int (params self) ''M'' = Inr M"
    and pos: "0 \<le> N" "0 \<le> M"
  shows "\<exists>self' vals errs.
           recalculate_lambda self None = Inr (self', PairA1 vals errs)
         \<and> properties self' = (properties self)(''Lambda'' \<mapsto> PairA1 vals errs)
         \<and> length vals = nat (min (N div 2) (M div 2))
         \<and> length errs = nat (min (N div 2) (M div 2))
         \<and> (\<forall>k < nat (min (N div 2) (M div 2)).
               \<exists>v ve h he.
                 calculate_spatial_correlation self k 0 = Inr (v, ve)
               \<and> calculate_spatial_correlation self 0 k = Inr (h, he)
               \<and> vals ! k = (v + h) / 2
               \<and> errs ! k = sqrt ((ve\<^sup>2 + he\<^sup>2) / 2))"
proof -
  define n where "n = nat (min (N div 2) (M div 2))"
  define V where "V = (\<lambda>i. projr (calculate_spatial_correlation self i 0))"
  define H where "H = (\<lambda>j. projr (calculate_spatial_correlation self 0 j))"
  define vals where "vals = map2 (\<lambda>v h. (v + h) / 2) (map fst (map V [0..<n])) (map fst (map H [0..<n]))"
  define errs where "errs = map2 (\<lambda>v h. sqrt ((v\<^sup>2 + h\<^sup>2) / 2)) (map snd (map V [0..<n])) (map snd (map H [0..<n]))"
  have nn: "\<not> min (N div 2) (M div 2) < 0" using pos by simp
  have Vt: "calculate_spatial_correlation self i 0 = Inr (V i)" for i
    unfolding V_def by (rule calculate_spatial_correlation_total [OF N M])
  have Ht: "calculate_spatial_correlation self 0 j = Inr (H j)" for j
    unfolding H_def by (rule calculate_spatial_correlation_total [OF N M])
  have mV: "mapE (\<lambda>i. calculate_spatial_correlation self i 0) [0..<n] = Inr (map V [0..<n])"
    by (rule mapE_Inr) (rule Vt)
  have mH: "mapE (\<lambda>j. calculate_spatial_correlation self 0 j) [0..<n] = Inr (map H [0..<n])"
    by (rule mapE_Inr) (rule Ht)
  have r: "recalculate_lambda self None =
        Inr (self\<lparr>properties := (properties self)(''Lambda'' \<mapsto> PairA1 vals errs)\<rparr>, PairA1 vals errs)"
    unfolding recalculate_lambda_def option.case N M bindE_def sum.case Let_def
      n_def [symmetric] if_not_P [OF nn] mV mH vals_def errs_def
    by (rule refl)
  have lv: "length vals = n" and le: "length errs = n"
    by (simp_all add: vals_def errs_def)
  have cell: "\<exists>v ve h he.
                 calculate_spatial_correlation self k 0 = Inr (v, ve)
               \<and> calculate_spatial_correlation self 0 k = Inr (h, he)
               \<and> vals ! k = (v + h) / 2
               \<and> errs ! k = sqrt ((ve\<^sup>2 + he\<^sup>2) / 2)" if "k < n" for k
  proof -
    obtain v ve where v: "V k = (v, ve)" by (cases "V k")
    obtain h he where h: "H k = (h, he)" by (cases "H k")
    have "vals ! k = (v + h) / 2" using that v h by (simp add: vals_def)
    moreover have "errs ! k = sqrt ((ve\<^sup>2 + he\<^sup>2) / 2)" using that v h by (simp add: errs_def)
    ultimately show ?thesis using Vt [of k] Ht [of k] v h by simp
  qed
  show ?thesis
    using r lv le cell unfolding n_def [symmetric]
    by (intro exI [of _ "self\<lparr>properties := (properties self)(''Lambda'' \<mapsto> PairA1 vals errs)\<rparr>"]
          exI [of _ vals] exI [of _ errs]) simp
qed

lemma recalculate_spatial_correlation_ok:
  assumes b: "cutoff_bounds self c = Inr (Nmax, Mmax)" and nn: "0 \<le> Nmax" "0 \<le> Mmax"
    and N: "param_int (params self) ''N'' = Inr N" and M: "param_int (params self) ''M'' = Inr M"
  shows "\<exists>cs es. recalculate_spatial_correlation self c =
           Inr (self\<lparr>properties := (properties self)(''spatialCorrelation'' \<mapsto> PairA2 cs es)\<rparr>,
                Arr2 cs)"
proof -
  define C where "C = (\<lambda>i j. projr (calculate_spatial_correlation self i j))"
  have Ct: "calculate_spatial_correlation self i j = Inr (C i j)" for i j
    unfolding C_def by (rule calculate_spatial_correlation_total [OF N M])
  have row: "mapE (\<lambda>j. calculate_spatial_correlation self i j) [0..<nat Mmax]
               = Inr (map (C i) [0..<nat Mmax])" for i
    by (rule mapE_Inr) (rule Ct)
  have cells: "mapE (\<lambda>i. mapE (\<lambda>j. calculate_spatial_correlation self i j) [0..<nat Mmax])
                 [0..<nat Nmax] = Inr (map (\<lambda>i. map (C i) [0..<nat Mmax]) [0..<nat Nmax])"
    by (rule mapE_Inr) (rule row)
  have g: "\<not> (Nmax < 0 \<or> Mmax < 0)" using nn by simp
  show ?thesis
    unfolding recalculate_spatial_correlation_def b bindE_def sum.case prod.case
      if_not_P [OF g] cells Let_def
    by blast
qed

text \<open>
  Claim C5 on the spatial correlation. Once \<^verbatim>\<open>recalculate_spatial_correlation\<close> has cached
  its pair, \<^verbatim>\<open>get_spatial_correlation\<close> with the same cutoff raises \<^verbatim>\<open>AttributeError\<close>
  (the guard reads \<^verbatim>\<open>.shape\<close> of the cached tuple); the claim says it returns the cached
  entry and never fails.
\<close>

theorem get_spatial_correlation_after_recalculate:
  assumes "recalculate_spatial_correlation self c = Inr (self', v)"
  shows "get_spatial_correlation self' c = Inl AttributeError"
proof -
  obtain Nmax Mmax where b: "cutoff_bounds self c = Inr (Nmax, Mmax)"
    using assms by (cases "cutoff_bounds self c") (auto simp: recalculate_spatial_correlation_def bindE_def)
  have g: "\<not> (Nmax < 0 \<or> Mmax < 0)"
    using assms unfolding recalculate_spatial_correlation_def b bindE_def sum.case prod.case
    by (auto split: if_splits)
  obtain cells where c: "mapE (\<lambda>i. mapE (\<lambda>j. calculate_spatial_correlation self i j) [0..<nat Mmax])
                 [0..<nat Nmax] = Inr cells"
    using assms unfolding recalculate_spatial_correlation_def b bindE_def sum.case prod.case if_not_P [OF g]
    by (cases "mapE (\<lambda>i. mapE (\<lambda>j. calculate_spatial_correlation self i j) [0..<nat Mmax])
                 [0..<nat Nmax]") simp_all
  have s: "self' = self\<lparr>properties := (properties self)
              (''spatialCorrelation'' \<mapsto> PairA2 (map (map fst) cells) (map (map snd) cells))\<rparr>"
    using assms unfolding recalculate_spatial_correlation_def b bindE_def sum.case prod.case
      if_not_P [OF g] c Let_def
    by simp
  have "cutoff_bounds self' c = Inr (Nmax, Mmax)"
    using b by (cases c) (simp_all add: s cutoff_bounds_def)
  then show ?thesis
    by (simp add: get_spatial_correlation_def bindE_def s py_shape_def)
qed

theorem get_spatial_correlation_after_recalculate_witness:
  "\<exists>self' v. recalculate_spatial_correlation scenario CNone = Inr (self', v)
     \<and> get_spatial_correlation self' CNone = Inl AttributeError"
proof -
  have n: "param_int (params scenario) ''N'' = Inr 2" and m: "param_int (params scenario) ''M'' = Inr 2"
    by (simp_all add: scenario_def param_int_def)
  have b: "cutoff_bounds scenario CNone = Inr (1, 1)"
    by (simp add: cutoff_bounds_def n m bindE_def)
  obtain self' v where r: "recalculate_spatial_correlation scenario CNone = Inr (self', v)"
    using recalculate_spatial_correlation_ok [OF b _ _ n m] by auto
  show ?thesis
    using r get_spatial_correlation_after_recalculate [OF r] by blast
qed

lemma get_lambda_cached:
  assumes "param_int (params self) ''N'' = Inr N" and "param_int (params self) ''M'' = Inr M"
    and "properties self ''Lambda'' = Some v"
  shows "get_lambda self None =
           (if min (N div 2) (M div 2) = py_len v then Inr (self, v)
            else recalculate_lambda self None)"
  using assms by (simp add: get_lambda_def bindE_def)

section \<open>Loader theorems\<close>

lemma example_loadtxt: "np_loadtxt example_rows = Inr (Arr2D example_rows)"
  by code_simp

lemma example_cols:
  "nd_col (Arr2D example_rows) 0 = Inr [0, 1, 2]"
  "nd_col (Arr2D example_rows) 5 = Inr [0, 1, 3]"
  "nd_col (Arr2D example_rows) 6 = Inr [1, 1, 1]"
  "nd_col (Arr2D example_rows) 7 = Inr [0, 1, 1]"
  by code_simp+

lemma example_block:
  "nd_block (Arr2D example_rows) \<lparr>sl_start = None, sl_stop = None, sl_step = None\<rparr>
      \<lparr>sl_start = Some 1, sl_stop = Some 5, sl_step = None\<rparr>
   = Inr [[0, 0, 0, 0], [1, 0, 0, 0], [1, 0, 0, 0]]"
  by code_simp

lemma example_frames:
  "reshape_frames 2 2 [0, 0, 0, 0, 1, 0, 0, 0, 1, 0, 0, 0 :: int]
   = Inr [[[0, 0], [0, 0]], [[1, 0], [0, 0]], [[1, 0], [0, 0]]]"
  by code_simp

lemma load_fullstate_example:
  "load_fullstate_traj blank_result fullstate_example =
     Inr (blank_result\<lparr>trajIdx := [0, 1, 2],
            traj := [[[0, 0], [0, 0]], [[1, 0], [0, 0]], [[1, 0], [0, 0]]],
            trajT := [0, 1, 3], trajDt := [1, 1, 1], trajEnergy := [0, 1, 1]\<rparr>)"
proof -
  have t: "table fullstate_example = example_rows"
    by (simp add: fullstate_example_def example_rows_def)
  have n: "param_int (params blank_result) ''N'' = Inr 2"
    and m: "param_int (params blank_result) ''M'' = Inr 2"
    by (simp_all add: blank_result_def param_int_def)
  have i: "trunc_int 0 = 0" "trunc_int 1 = 1" "trunc_int 2 = 2" by (simp_all add: trunc_int_def)
  show ?thesis
    unfolding load_fullstate_traj_def t example_loadtxt n m
    by (simp add: bindE_def example_cols example_block example_frames i)
qed


lemma markers:
  "search_marker (line1 fullstate_example) = Some ''FullState''"
  "search_marker (line1 onlychange_example) = Some ''OnlyChange''"
  by (simp_all add: fullstate_example_def onlychange_example_def starts_with_def)

text \<open>
  Claim C1 as stated fails. A FullState artifact with times \<open>[0, 1, 3]\<close> and dwell times
  \<open>[1, 1, 1]\<close> loads with \<^verbatim>\<open>totalSampleTime = 3\<close>, the sum of the dwell times, while
  \<open>time[-1] + dwellTime[-1] - time[0] = 4\<close>.
\<close>

theorem load_traj_fullstate_sum_not_span:
  "\<exists>r. load_traj blank_result fullstate_example = Inr r
       \<and> search_marker (line1 fullstate_example) = Some ''FullState''
       \<and> totalSampleTime r = 3
       \<and> sum_list (trajDt r) = 3
       \<and> last (trajT r) + last (trajDt r) - hd (trajT r) = 4"
  by (simp add: load_traj_def markers load_fullstate_example bindE_def)

text \<open>
  Claim C1, amended. For every trajectory loaded from an artifact whose first line carries
  the FullState marker, \<^verbatim>\<open>totalSampleTime\<close> is the sum of the dwell times. (The OnlyChange
  branch of \<^verbatim>\<open>load_traj\<close> assigns the span \<^verbatim>\<open>totalTime\<close>; no OnlyChange artifact loads,
  see claim C2.)
\<close>

theorem load_traj_fullstate_total:
  assumes "load_traj self tf = Inr r"
    and "search_marker (line1 tf) = Some ''FullState''"
  shows "totalSampleTime r = sum_list (trajDt r)"
  using assms
  by (cases "load_fullstate_traj self tf") (auto simp: load_traj_def bindE_def)

theorem load_traj_fullstate_total_witness:
  "\<exists>r. load_traj blank_result fullstate_example = Inr r
       \<and> totalSampleTime r = sum_list (trajDt r)"
proof -
  obtain r where r: "load_traj blank_result fullstate_example = Inr r"
    by (simp add: load_traj_def markers load_fullstate_example bindE_def)
  show ?thesis
    using r load_traj_fullstate_total [OF r markers(1)] by blast
qed

lemma load_onlychange_traj_raises: "\<exists>e. load_onlychange_traj self tf = Inl e"
proof (cases "param_int (params self) ''N''")
  case (Inl e)
  then show ?thesis by (simp add: load_onlychange_traj_def bindE_def)
next
  case N: (Inr N)
  show ?thesis
  proof (cases "param_int (params self) ''M''")
    case (Inl e)
    then show ?thesis by (simp add: load_onlychange_traj_def bindE_def N)
  next
    case M: (Inr M)
    show ?thesis
      unfolding load_onlychange_traj_def N M bindE_def sum.case np_array_of_map_def
      by (simp split: list.splits)
  qed
qed

text \<open>
  Claim C2 at a well-formed OnlyChange artifact (type marker, \<^verbatim>\<open>Initial State\<close> line, three
  rows): loading raises \<^verbatim>\<open>TypeError\<close> where the initial state is converted, so no dense
  state array is produced; by \<open>load_onlychange_traj_raises\<close> this is so for every
  artifact. The claim says decoding reproduces the FullState sequence. The replay loop
  itself would: on its own it yields frame \<open>0\<close> and then every frame as the previous one
  with one cell overwritten (\<open>replay_reconstructs\<close>).
\<close>

theorem load_traj_onlychange_example:
  "search_marker (line1 onlychange_example) = Some ''OnlyChange''
   \<and> contains ''Initial State'' (line2 onlychange_example)
   \<and> load_traj blank_result onlychange_example = Inl TypeError"
proof -
  have k: "map py_strip (split_on (CHR ''='') (py_strip (line2 onlychange_example)))
           = [''# Initial State'', ''0 0 0 0'']"
    by code_simp
  have c: "contains ''Initial State'' ''# Initial State''"
    "contains ''Initial State'' (line2 onlychange_example)" by code_simp+
  have n: "param_int (params blank_result) ''N'' = Inr 2"
    and m: "param_int (params blank_result) ''M'' = Inr 2"
    by (simp_all add: blank_result_def param_int_def)
  have "load_onlychange_traj blank_result onlychange_example = Inl TypeError"
    unfolding load_onlychange_traj_def n m k
    by (simp add: bindE_def c np_array_of_map_def del: contains.simps)
  then show ?thesis
    by (simp add: load_traj_def markers bindE_def c del: contains.simps)
qed

lemma replay_apply_flips:
  assumes "length A = Suc (step + length flips)"
  shows "replay A step flips =
           bindE (apply_flips (A ! step) flips) (\<lambda>fs. Inr (take step A @ fs))"
  using assms
proof (induction flips arbitrary: A step)
  case Nil
  then show ?case by (simp add: bindE_def take_Suc_conv_app_nth [symmetric])
next
  case (Cons s flips)
  show ?case
  proof (cases "\<exists>i j v. s = [i, j, v]")
    case False
    then have "(case s of [i, j, nextSpin] \<Rightarrow> X i j nextSpin | _ \<Rightarrow> Inl ValueError) = Inl ValueError"
      for X :: "int \<Rightarrow> int \<Rightarrow> int \<Rightarrow> error + int list list list"
      by (auto split: list.splits)
    then show ?thesis by (simp add: bindE_def)
  next
    case True
    then obtain i j v where s: "s = [i, j, v]" by blast
    show ?thesis
    proof (cases "set_cell (A ! step) i j v")
      case (Inl e)
      then show ?thesis by (simp add: s bindE_def)
    next
      case (Inr g)
      have len: "length (A[Suc step := g]) = Suc (Suc step + length flips)"
        using Cons.prems by simp
      have nth: "A[Suc step := g] ! Suc step = g"
        using Cons.prems by simp
      have tk: "take (Suc step) (A[Suc step := g]) = take step A @ [A ! step]"
        using Cons.prems by (simp add: take_Suc_conv_app_nth)
      have "replay (A[Suc step := g]) (Suc step) flips =
              bindE (apply_flips g flips) (\<lambda>fs. Inr ((take step A @ [A ! step]) @ fs))"
        using Cons.IH [OF len] by (simp only: nth tk)
      then show ?thesis
        by (cases "apply_flips g flips") (simp_all add: s Inr bindE_def)
    qed
  qed
qed

theorem replay_reconstructs:
  "replay (replicate (Suc (length flips)) initialState) 0 flips = apply_flips initialState flips"
proof -
  have "replay (replicate (Suc (length flips)) initialState) 0 flips =
          bindE (apply_flips (replicate (Suc (length flips)) initialState ! 0) flips)
            (\<lambda>fs. Inr (take 0 (replicate (Suc (length flips)) initialState) @ fs))"
    by (rule replay_apply_flips) simp
  then show ?thesis
    by (cases "apply_flips initialState flips") (simp_all add: bindE_def)
qed

section \<open>Slicing theorems\<close>

lemma py_index_last: "xs \<noteq> [] \<Longrightarrow> py_index xs (- 1) = Inr (last xs)"
  by (cases xs rule: rev_cases) (auto simp: py_index_def Let_def nth_append)

lemma py_index_first: "xs \<noteq> [] \<Longrightarrow> py_index xs 0 = Inr (hd xs)"
  by (cases xs) (auto simp: py_index_def Let_def)

lemma totalTime_nonempty:
  assumes "trajT self \<noteq> []" and "trajDt self \<noteq> []"
  shows "totalTime self = Inr (last (trajT self) + last (trajDt self) - hd (trajT self))"
  using assms by (simp add: totalTime_def bindE_def py_index_last py_index_first)

lemma valid_trajectory_lengths:
  assumes "valid_trajectory self"
  shows "length (trajIdx self) = length (traj self)" "length (trajT self) = length (traj self)"
    "length (trajDt self) = length (traj self)" "length (trajEnergy self) = length (traj self)"
  using assms unfolding valid_trajectory_def by (auto split: sum.splits)

text \<open>
  Claim C9 as stated fails for two slice specifications. On the valid scenario (record
  frequency \<open>1\<close>) the empty slice \<open>[0:0]\<close> raises \<^verbatim>\<open>IndexError\<close> (\<^verbatim>\<open>totalTime\<close> reads the
  last entry of an empty array), and a slice with step \<open>0\<close> raises \<^verbatim>\<open>ValueError\<close>.
\<close>

theorem getitem_empty_or_zero_step:
  "valid_trajectory scenario
   \<and> getitem scenario \<lparr>sl_start = Some 0, sl_stop = Some 0, sl_step = None\<rparr> = Inl IndexError
   \<and> getitem scenario \<lparr>sl_start = None, sl_stop = None, sl_step = Some 0\<rparr> = Inl ValueError"
proof -
  have v: "valid_trajectory scenario"
    by (simp add: valid_trajectory_def scenario_def param_int_def lattice_shape_def)
  have e: "slice_indices \<lparr>sl_start = Some 0, sl_stop = Some 0, sl_step = None\<rparr> 3 = Inr []"
    by (simp add: slice_indices_def clip_bound_def Let_def)
  have z: "slice_indices \<lparr>sl_start = None, sl_stop = None, sl_step = Some 0\<rparr> n = Inl ValueError" for n
    by (simp add: slice_indices_def Let_def)
  have l: "length (trajIdx scenario) = 3" "length (traj scenario) = 3" "length (trajT scenario) = 3"
    "length (trajDt scenario) = 3" "length (trajEnergy scenario) = 3"
    by (simp_all add: scenario_def)
  have rf: "params scenario ''recordFreq'' = Some (PInt 1)"
    by (simp add: scenario_def)
  have "getitem scenario \<lparr>sl_start = Some 0, sl_stop = Some 0, sl_step = None\<rparr> = Inl IndexError"
    unfolding getitem_def Let_def l e bindE_def sum.case
    by (simp add: rf param_is_one_def take_indices_def totalTime_def py_index_def bindE_def)
  moreover have "getitem scenario \<lparr>sl_start = None, sl_stop = None, sl_step = Some 0\<rparr> = Inl ValueError"
    unfolding getitem_def Let_def z bindE_def sum.case by (rule refl)
  ultimately show ?thesis using v by simp
qed

text \<open>
  Claim C9, amended. For every valid result and every slice specification with a non-zero
  step that selects at least one frame, or any number of frames when the record frequency
  is not \<open>1\<close>: slicing returns a new object whose \<^verbatim>\<open>trajIdx\<close>, \<^verbatim>\<open>traj\<close>, \<^verbatim>\<open>trajT\<close>,
  \<^verbatim>\<open>trajDt\<close> and \<^verbatim>\<open>trajEnergy\<close> are the selected entries, whose properties cache is empty,
  and whose \<^verbatim>\<open>totalSampleTime\<close> is \<open>time[-1] + dwellTime[-1] - time[0]\<close> when the record
  frequency equals \<open>1\<close> and the sum of the dwell times otherwise; the source object is
  returned unchanged.
\<close>

theorem getitem_slices:
  assumes v: "valid_trajectory self"
    and idx: "slice_indices sl (length (traj self)) = Inr is"
    and rf: "params self ''recordFreq'' = Some rf"
    and ne: "is \<noteq> [] \<or> \<not> param_is_one rf"
  shows "\<exists>new. getitem self sl = Inr (self, new)
           \<and> trajIdx new = take_indices (trajIdx self) is
           \<and> traj new = take_indices (traj self) is
           \<and> trajT new = take_indices (trajT self) is
           \<and> trajDt new = take_indices (trajDt self) is
           \<and> trajEnergy new = take_indices (trajEnergy self) is
           \<and> properties new = Map.empty
           \<and> params new = params self \<and> kB new = kB self
           \<and> totalSampleTime new =
                (if param_is_one rf
                 then last (trajT new) + last (trajDt new) - hd (trajT new)
                 else sum_list (trajDt new))"
proof -
  note l = valid_trajectory_lengths [OF v]
  define new0 where "new0 = self\<lparr>trajIdx := take_indices (trajIdx self) is,
                                 traj := take_indices (traj self) is,
                                 trajT := take_indices (trajT self) is,
                                 trajDt := take_indices (trajDt self) is,
                                 trajEnergy := take_indices (trajEnergy self) is,
                                 properties := Map.empty\<rparr>"
  have p: "params new0 ''recordFreq'' = Some rf" by (simp add: new0_def rf)
  have g: "getitem self sl =
             (if param_is_one rf
              then bindE (totalTime new0) (\<lambda>t. Inr (self, new0\<lparr>totalSampleTime := t\<rparr>))
              else Inr (self, new0\<lparr>totalSampleTime := sum_list (trajDt new0)\<rparr>))"
    unfolding getitem_def Let_def l idx bindE_def [of "Inr is"] sum.case new0_def [symmetric] p
      option.case
    by (rule refl)
  show ?thesis
  proof (cases "param_is_one rf")
    case False
    then show ?thesis unfolding g by (simp add: new0_def)
  next
    case True
    then have "is \<noteq> []" using ne by simp
    then have "trajT new0 \<noteq> []" "trajDt new0 \<noteq> []"
      by (simp_all add: new0_def take_indices_def)
    then have "totalTime new0 = Inr (last (trajT new0) + last (trajDt new0) - hd (trajT new0))"
      by (rule totalTime_nonempty)
    then show ?thesis unfolding g using True by (simp add: bindE_def new0_def)
  qed
qed

theorem getitem_slices_witness:
  "\<exists>new. getitem scenario \<lparr>sl_start = Some 1, sl_stop = None, sl_step = None\<rparr> = Inr (scenario, new)
     \<and> trajT new = [1, 3] \<and> trajDt new = [2, 1] \<and> trajEnergy new = [1, 1]
     \<and> traj new = [[[1, 0], [0, 0]], [[1, 0], [0, 0]]]
     \<and> properties new = Map.empty \<and> totalSampleTime new = 3"
proof -
  have v: "valid_trajectory scenario"
    by (simp add: valid_trajectory_def scenario_def param_int_def lattice_shape_def)
  have i: "slice_indices \<lparr>sl_start = Some 1, sl_stop = None, sl_step = None\<rparr> (length (traj scenario))
             = Inr [1, 2]"
    by (simp add: slice_indices_def clip_bound_def Let_def scenario_def upt_conv_Cons)
  have rf: "params scenario ''recordFreq'' = Some (PInt 1)"
    by (simp add: scenario_def)
  have ne: "[1, 2 :: nat] \<noteq> [] \<or> \<not> param_is_one (PInt 1)" by simp
  have t: "take_indices (trajT scenario) [1, 2] = [1, 3]"
    "take_indices (trajDt scenario) [1, 2] = [2, 1]"
    "take_indices (trajEnergy scenario) [1, 2] = [1, 1]"
    "take_indices (traj scenario) [1, 2] = [[[1, 0], [0, 0]], [[1, 0], [0, 0]]]"
    by (simp_all add: take_indices_def scenario_def)
  obtain new where g: "getitem scenario \<lparr>sl_start = Some 1, sl_stop = None, sl_step = None\<rparr>
                         = Inr (scenario, new)"
    and a: "traj new = take_indices (traj scenario) [1, 2]"
      "trajT new = take_indices (trajT scenario) [1, 2]"
      "trajDt new = take_indices (trajDt scenario) [1, 2]"
      "trajEnergy new = take_indices (trajEnergy scenario) [1, 2]"
    and p: "properties new = Map.empty"
    and tot: "totalSampleTime new = (if param_is_one (PInt 1)
                 then last (trajT new) + last (trajDt new) - hd (trajT new)
                 else sum_list (trajDt new))"
    using getitem_slices [OF v i rf ne] by blast
  have a': "traj new = [[[1, 0], [0, 0]], [[1, 0], [0, 0]]]" "trajT new = [1, 3]"
    "trajDt new = [2, 1]" "trajEnergy new = [1, 1]"
    using a t by simp_all
  have tot3: "totalSampleTime new = 3"
    unfolding tot a' by (simp add: param_is_one_def)
  show ?thesis
    using g a' p tot3 by (intro exI [of _ new]) simp
qed

section \<open>Parameter log theorems\<close>

lemma example_log_parses:
  "from_log decimal_int decimal_float example_log =
     Inr [(''N'', PInt 2), (''M'', PInt 2), (''q'', PInt 2), (''steps'', PInt 3),
          (''recordFreq'', PInt 1), (''randomSeed'', PInt 1234), (''J'', PFloat 1),
          (''B'', PFloat 0), (''T'', PFloat 1), (''tau'', PFloat 10), (''jobName'', PStr ''potts'')]"
  by code_simp

lemma example_log_extra_rest:
  "find_params (splitlines example_log_extra) =
     Inr (unlines [''N = 2'', ''M = 2'', ''q = 2'',
     ''steps = 3'', ''recordFreq = 1'', ''randomSeed = 1234'', ''J = 1'', ''B = 0'', ''T = 1'',
     ''tau = 10'', ''jobName = potts'', ''extra = 1''])"
  by code_simp

lemma example_log_extra_matches:
  "findall_params True (unlines [''N = 2'', ''M = 2'', ''q = 2'',
     ''steps = 3'', ''recordFreq = 1'', ''randomSeed = 1234'', ''J = 1'', ''B = 0'', ''T = 1'',
     ''tau = 10'', ''jobName = potts'', ''extra = 1''])
   = [''N = 2'', ''M = 2'', ''q = 2'',
     ''steps = 3'', ''recordFreq = 1'', ''randomSeed = 1234'', ''J = 1'', ''B = 0'', ''T = 1'',
     ''tau = 10'', ''jobName = potts'', ''extra = 1'']"
  by code_simp

lemma example_log_extra_raises:
  "from_log decimal_int decimal_float example_log_extra = Inl KeyError"
  by code_simp

text \<open>
  Claim C7 as stated fails. The log with the eleven required fields parses; the same log
  with the further line \<^verbatim>\<open>extra = 1\<close> raises \<^verbatim>\<open>KeyError\<close> (the type registered for the
  name is looked up in \<^verbatim>\<open>PARAM_TRANS\<close>), so the extra field is not ignored.
\<close>

theorem from_log_extra_field_raises:
  "(\<exists>d. from_log decimal_int decimal_float example_log = Inr d)
   \<and> example_log_extra = example_log @ unlines [''extra = 1'']
   \<and> from_log decimal_int decimal_float example_log_extra = Inl KeyError"
proof -
  have "example_log_extra = example_log @ unlines [''extra = 1'']"
    by (rule example_log_extra_def)
  then show ?thesis
    using example_log_parses example_log_extra_raises by blast
qed

lemma example_not_malformed: "\<not> spec_malformed example_log_equals fullstate_example"
  by code_simp

lemma example_equals_from_log:
  "from_log decimal_int decimal_float example_log_equals = Inl ValueError"
  by code_simp

text \<open>
  Claim C8 as stated fails in the direction "only when". A log with the \<^verbatim>\<open>PARAMS\<close> line and
  exactly the required names, whose job name is written \<^verbatim>\<open>jobName = a=b\<close>, and a FullState
  artifact are not malformed in any of the four ways, and loading raises \<^verbatim>\<open>ValueError\<close>
  (the line splits into three parts).
\<close>

theorem init_fails_on_embedded_equals:
  "\<not> spec_malformed example_log_equals fullstate_example
   \<and> PottsResult_init decimal_int decimal_float example_log_equals fullstate_example
       = Inl ValueError"
  using example_not_malformed
  by (simp add: PottsResult_init_def example_equals_from_log bindE_def)

lemma dict_set_keys: "set (map fst (dict_set k v d)) = insert k (set (map fst d))"
  by (induction d) auto

lemma split_two_key:
  assumes "map py_strip (split_on (CHR ''='') raw) = [k, v]"
  shows "k = key_of raw"
  using assms by (cases "split_on (CHR ''='') raw") (auto simp: key_of_def)

lemma parse_params_unknown:
  assumes "raw \<in> set raws" and "key_of raw \<notin> set (map fst PARAM_TRANS)"
  shows "\<exists>e. parse_params int_of float_of d raws = Inl e"
  using assms(1)
proof (induction raws arbitrary: d)
  case Nil
  then show ?case by simp
next
  case (Cons r rest)
  show ?case
  proof (cases "\<exists>k v. map py_strip (split_on (CHR ''='') r) = [k, v]")
    case False
    then have "parse_params int_of float_of d (r # rest) = Inl ValueError"
      by (auto split: list.splits)
    then show ?thesis by blast
  next
    case True
    then obtain k v where kv: "map py_strip (split_on (CHR ''='') r) = [k, v]" by (elim exE)
    show ?thesis
    proof (cases "map_of PARAM_TRANS k")
      case None
      then show ?thesis by (simp add: kv)
    next
      case (Some t)
      then have "k \<in> set (map fst PARAM_TRANS)"
        by (metis map_of_eq_None_iff option.distinct(1) set_map)
      then have "r \<noteq> raw" using assms(2) split_two_key [OF kv] by auto
      then have mem: "raw \<in> set rest" using Cons.prems by simp
      show ?thesis
      proof (cases "coerce int_of float_of t v")
        case (Inl e)
        then show ?thesis by (simp add: kv Some bindE_def)
      next
        case (Inr x)
        then show ?thesis using Cons.IH [OF mem, of "dict_set k x d"]
          by (simp add: kv Some bindE_def)
      qed
    qed
  qed
qed

text \<open>
  Claim C7, amended. For every log whose text after the \<^verbatim>\<open>PARAMS\<close> line has a matching line
  whose name is not in the enumerated parameter set, parsing the log raises an error,
  whatever the other lines are: the extra field is rejected, not ignored.
\<close>

theorem from_log_rejects_unknown_name:
  assumes "find_params (splitlines logText) = Inr rest"
    and "raw \<in> set (findall_params True rest)"
    and "key_of raw \<notin> set (map fst PARAM_TRANS)"
  shows "\<exists>e. from_log int_of float_of logText = Inl e"
proof -
  obtain e where "parse_params int_of float_of [] (findall_params True rest) = Inl e"
    using parse_params_unknown [OF assms(2,3)] by blast
  then show ?thesis by (simp add: from_log_def assms(1) bindE_def)
qed

theorem from_log_rejects_unknown_name_witness:
  "\<exists>e. from_log decimal_int decimal_float example_log_extra = Inl e"
proof -
  have m: "''extra = 1'' \<in> set (findall_params True (unlines [''N = 2'', ''M = 2'', ''q = 2'',
     ''steps = 3'', ''recordFreq = 1'', ''randomSeed = 1234'', ''J = 1'', ''B = 0'', ''T = 1'',
     ''tau = 10'', ''jobName = potts'', ''extra = 1'']))"
    unfolding example_log_extra_matches by simp
  have k: "key_of ''extra = 1'' \<notin> set (map fst PARAM_TRANS)"
    by code_simp
  show ?thesis
    by (rule from_log_rejects_unknown_name [OF example_log_extra_rest m k])
qed

lemma parse_params_keys:
  assumes "parse_params int_of float_of d raws = Inr d'"
  shows "set (map fst d') = set (map fst d) \<union> set (map key_of raws)"
  using assms
proof (induction raws arbitrary: d)
  case Nil
  then show ?case by simp
next
  case (Cons r rest)
  from Cons.prems obtain k v where kv: "map py_strip (split_on (CHR ''='') r) = [k, v]"
    by (auto split: list.splits)
  from Cons.prems kv obtain t where t: "map_of PARAM_TRANS k = Some t"
    by (cases "map_of PARAM_TRANS k") auto
  from Cons.prems kv t obtain x where x: "coerce int_of float_of t v = Inr x"
    by (cases "coerce int_of float_of t v") (auto simp: bindE_def)
  have "parse_params int_of float_of (dict_set k x d) rest = Inr d'"
    using Cons.prems by (simp add: kv t x bindE_def)
  then have "set (map fst d') = set (map fst (dict_set k x d)) \<union> set (map key_of rest)"
    by (rule Cons.IH)
  then show ?case
    unfolding dict_set_keys using split_two_key [OF kv] by auto
qed

lemma from_log_names:
  assumes "find_params (splitlines logText) = Inr rest"
    and "set (map key_of (findall_params True rest)) \<noteq> set (map fst PARAM_TRANS)"
  shows "\<exists>e. from_log int_of float_of logText = Inl e"
proof (cases "parse_params int_of float_of [] (findall_params True rest)")
  case (Inl e)
  then show ?thesis by (simp add: from_log_def assms(1) bindE_def)
next
  case (Inr d)
  have "set (map fst d) = set (map key_of (findall_params True rest))"
    using parse_params_keys [OF Inr] by simp
  then show ?thesis using assms(2) by (simp add: from_log_def assms(1) bindE_def Inr)
qed

text \<open>
  Claim C8, amended. Whenever the input is malformed in one of the four ways (no
  \<^verbatim>\<open>PARAMS\<close> line before the end of the log, parsed names different from the required
  set, no type marker in the first trajectory line, an OnlyChange artifact without an
  \<^verbatim>\<open>Initial State\<close> entry in its second line), constructing the result raises an error and
  returns no object. The converse does not hold.
\<close>

theorem init_fails_when_malformed:
  assumes "spec_malformed logText tf"
  shows "\<exists>e. PottsResult_init int_of float_of logText tf = Inl e"
proof (cases "from_log int_of float_of logText")
  case (Inl e)
  then show ?thesis by (simp add: PottsResult_init_def bindE_def)
next
  case (Inr d)
  define self where "self = \<lparr>params = map_of d, kB = 1, properties = Map.empty, trajIdx = [],
      traj = [], trajT = [], trajDt = [], trajEnergy = [], totalSampleTime = 0\<rparr>"
  have i: "PottsResult_init int_of float_of logText tf = load_traj self tf"
    by (simp add: PottsResult_init_def Inr bindE_def self_def)
  obtain rest where rest: "find_params (splitlines logText) = Inr rest"
    using Inr by (cases "find_params (splitlines logText)") (auto simp: from_log_def bindE_def)
  have "set (map key_of (findall_params True rest)) = set (map fst PARAM_TRANS)"
    using from_log_names [OF rest, of int_of float_of] Inr by auto
  then have t: "search_marker (line1 tf) = None
       \<or> (search_marker (line1 tf) = Some ''OnlyChange'' \<and> \<not> contains ''Initial State'' (line2 tf))"
    using assms by (simp add: spec_malformed_def rest)
  show ?thesis
  proof (cases "search_marker (line1 tf)")
    case None
    then show ?thesis by (simp add: i load_traj_def)
  next
    case (Some m)
    then have m: "m = ''OnlyChange''" using t by simp
    obtain e where "load_onlychange_traj self tf = Inl e"
      using load_onlychange_traj_raises by blast
    then show ?thesis by (simp add: i load_traj_def Some m bindE_def)
  qed
qed

theorem init_fails_when_malformed_witness:
  "\<exists>e. PottsResult_init decimal_int decimal_float ''no marker here'' fullstate_example = Inl e"
proof -
  have "spec_malformed ''no marker here'' fullstate_example"
    by code_simp
  then show ?thesis by (rule init_fails_when_malformed)
qed

text \<open>The guard on the second line of an OnlyChange artifact: without
  \<^verbatim>\<open>Initial State\<close> in the line, the loader stops at the unpacking or at the guard.\<close>

lemma starts_with_iff: "starts_with p s \<longleftrightarrow> (\<exists>b. s = p @ b)"
proof
  assume "starts_with p s"
  then have "s = p @ drop (length p) s"
    unfolding starts_with_def by (metis append_take_drop_id)
  then show "\<exists>b. s = p @ b" ..
next
  assume "\<exists>b. s = p @ b"
  then show "starts_with p s" by (auto simp: starts_with_def)
qed

lemma contains_iff: "contains sub s \<longleftrightarrow> (\<exists>a b. s = a @ sub @ b)"
proof (induction s)
  case Nil
  then show ?case by auto
next
  case (Cons c cs)
  show ?case
  proof
    assume "contains sub (c # cs)"
    then consider "starts_with sub (c # cs)" | "contains sub cs" by auto
    then show "\<exists>a b. c # cs = a @ sub @ b"
    proof cases
      case 1
      then obtain b where "c # cs = sub @ b" unfolding starts_with_iff by blast
      then have "c # cs = [] @ sub @ b" by simp
      then show ?thesis by blast
    next
      case 2
      then obtain a b where "cs = a @ sub @ b" using Cons.IH by blast
      then have "c # cs = (c # a) @ sub @ b" by simp
      then show ?thesis by blast
    qed
  next
    assume "\<exists>a b. c # cs = a @ sub @ b"
    then obtain a b where ab: "c # cs = a @ sub @ b" by blast
    show "contains sub (c # cs)"
    proof (cases a)
      case Nil
      then have "starts_with sub (c # cs)" using ab unfolding starts_with_iff by auto
      then show ?thesis by simp
    next
      case (Cons x a')
      then have "cs = a' @ sub @ b" using ab by simp
      then have "contains sub cs" using Cons.IH by blast
      then show ?thesis by simp
    qed
  qed
qed

lemma py_strip_infix: "\<exists>a b. s = a @ py_strip s @ b"
proof -
  define t where "t = dropWhile is_space s"
  have "rev (takeWhile is_space (rev t) @ dropWhile is_space (rev t)) = rev (rev t)"
    by (simp only: takeWhile_dropWhile_id)
  then have "rev (dropWhile is_space (rev t)) @ rev (takeWhile is_space (rev t)) = t"
    by (simp only: rev_append rev_rev_ident)
  then have "t = py_strip s @ rev (takeWhile is_space (rev t))"
    unfolding py_strip_def t_def by (rule sym)
  moreover have "s = takeWhile is_space s @ t" by (simp add: t_def)
  ultimately have "s = takeWhile is_space s @ py_strip s @ rev (takeWhile is_space (rev t))"
    by simp
  then show ?thesis by blast
qed

lemma hd_split_on_prefix: "\<exists>b. s = hd (split_on d s) @ b"
proof (induction s)
  case Nil
  then show ?case by simp
next
  case (Cons c cs)
  then obtain b where b: "cs = hd (split_on d cs) @ b" by blast
  show ?case
  proof (cases "c = d")
    case True
    then show ?thesis by simp
  next
    case False
    show ?thesis
    proof (cases "split_on d cs")
      case Nil
      then show ?thesis using False by simp
    next
      case (Cons w ws)
      then have "c # cs = hd (split_on d (c # cs)) @ b" using False b by simp
      then show ?thesis by blast
    qed
  qed
qed

lemma initial_state_guard:
  assumes "\<not> contains sub l"
    and "map py_strip (split_on d (py_strip l)) = [k, v]"
  shows "\<not> contains sub k"
proof
  assume "contains sub k"
  then obtain x y where k: "k = x @ sub @ y" unfolding contains_iff by blast
  have "k = py_strip (hd (split_on d (py_strip l)))"
    using assms(2) by (cases "split_on d (py_strip l)") auto
  then obtain a' b' where h: "hd (split_on d (py_strip l)) = a' @ k @ b'"
    using py_strip_infix [of "hd (split_on d (py_strip l))"] by auto
  obtain b where p: "py_strip l = hd (split_on d (py_strip l)) @ b"
    using hd_split_on_prefix by blast
  obtain a c where l: "l = a @ py_strip l @ c" using py_strip_infix by blast
  have "l = (a @ a' @ x) @ sub @ (y @ b' @ b @ c)"
    using l p h k by (metis append.assoc)
  then have "contains sub l" unfolding contains_iff by blast
  then show False using assms(1) by simp
qed

lemma load_onlychange_traj_guard:
  assumes "param_int (params self) ''N'' = Inr N" and "param_int (params self) ''M'' = Inr M"
    and "\<not> contains ''Initial State'' (line2 tf)"
  shows "load_onlychange_traj self tf = Inl KeyError \<or> load_onlychange_traj self tf = Inl ValueError"
proof (cases "\<exists>k v. map py_strip (split_on (CHR ''='') (py_strip (line2 tf))) = [k, v]")
  case False
  then have "load_onlychange_traj self tf = Inl ValueError"
    unfolding load_onlychange_traj_def assms(1,2) bindE_def sum.case
    by (auto split: list.splits)
  then show ?thesis by simp
next
  case True
  then obtain k v where kv: "map py_strip (split_on (CHR ''='') (py_strip (line2 tf))) = [k, v]"
    by (elim exE)
  have "\<not> contains ''Initial State'' k"
    using assms(3) kv by (rule initial_state_guard)
  then have "load_onlychange_traj self tf = Inl KeyError"
    unfolding load_onlychange_traj_def assms(1,2) bindE_def sum.case kv
    by (simp del: contains.simps)
  then show ?thesis by simp
qed

section \<open>The FullState decoder establishes the invariant\<close>

lemma slice_all: "slice_indices \<lparr>sl_start = None, sl_stop = None, sl_step = None\<rparr> n = Inr [0..<n]"
proof -
  have "map (\<lambda>k. nat (0 + int k * 1)) [0..<n] = [0..<n]"
    by (simp add: map_idI)
  then show ?thesis
    by (cases "n = 0") (simp_all add: slice_indices_def Let_def)
qed

lemma take_indices_all: "take_indices xs [0..<length xs] = xs"
  by (simp add: take_indices_def map_nth)

lemma slice_columns:
  assumes "0 \<le> c" and "c + 1 \<le> int w"
  shows "\<exists>ci. slice_indices \<lparr>sl_start = Some 1, sl_stop = Some (c + 1), sl_step = None\<rparr> w = Inr ci
            \<and> length ci = nat c"
proof -
  have start: "clip_bound 1 (int w) 1 = 1"
    using assms by (auto simp: clip_bound_def)
  have stop: "clip_bound 1 (int w) (c + 1) = c + 1"
    using assms by (auto simp: clip_bound_def)
  show ?thesis
    using assms
    by (simp add: slice_indices_def Let_def start stop)
qed

lemma length_chunks: "length (chunks k xs) = length xs div k"
  by (simp add: chunks_def)

lemma chunk_length:
  assumes "0 < k" and "c \<in> set (chunks k xs)"
  shows "length c = k"
proof -
  obtain i where i: "i < length xs div k" and c: "c = take k (drop (i * k) xs)"
    using assms(2) by (auto simp: chunks_def)
  have "Suc i * k \<le> length xs div k * k"
    using i by (intro mult_le_mono1) simp
  also have "\<dots> \<le> length xs" by simp
  finally have "i * k + k \<le> length xs" by simp
  then show ?thesis by (simp add: c)
qed

lemma chunks_shape:
  assumes "0 < n" and "0 < m" and "length xs = n * m"
  shows "lattice_shape n m (chunks m xs)"
  unfolding lattice_shape_def list_all_iff
  using assms chunk_length [of m _ xs] by (auto simp: length_chunks)

lemma reshape_frames_shape:
  assumes "reshape_frames N M flat = Inr frames"
  shows "0 < N \<and> 0 < M \<and> length frames = length flat div nat (N * M)
         \<and> list_all (lattice_shape (nat N) (nat M)) frames"
proof -
  have pos: "0 < N" "0 < M"
    and fr: "frames = map (chunks (nat M)) (chunks (nat (N * M)) flat)"
    using assms by (auto simp: reshape_frames_def split: if_splits)
  have nm: "nat (N * M) = nat N * nat M" using pos by (simp add: nat_mult_distrib)
  have k: "0 < nat (N * M)" using pos by simp
  have "lattice_shape (nat N) (nat M) (chunks (nat M) c)" if "c \<in> set (chunks (nat (N * M)) flat)" for c
  proof -
    have "length c = nat N * nat M" using chunk_length [OF k that] nm by simp
    then show ?thesis using pos by (intro chunks_shape) simp_all
  qed
  then have "list_all (lattice_shape (nat N) (nat M)) frames"
    unfolding fr list_all_iff by auto
  then show ?thesis using pos by (simp add: fr length_chunks)
qed

lemma nd_col_length:
  assumes "nd_col a k = Inr xs"
  shows "\<exists>rows. a = Arr2D rows \<and> length xs = length rows
           \<and> (if k < 0 then 0 \<le> k + int (length (hd rows)) else k < int (length (hd rows)))"
  using assms by (cases a) (auto simp: nd_col_def Let_def split: if_splits)

lemma np_loadtxt_rows:
  assumes "np_loadtxt t = Inr (Arr2D rows)"
  shows "rows = t \<and> list_all (\<lambda>r. length r = length (hd rows)) rows"
  using assms by (cases t) (auto simp: np_loadtxt_def split: if_splits)

lemma bindE_Inr: "bindE x f = Inr y \<Longrightarrow> \<exists>a. x = Inr a \<and> f a = Inr y"
  by (cases x) (simp_all add: bindE_def)

lemma length_concat_uniform:
  "list_all (\<lambda>r. length r = k) rows \<Longrightarrow> length (concat rows) = length rows * k"
  by (induction rows) simp_all

text \<open>Every trajectory that the FullState decoder returns satisfies the trajectory
  invariant, with one frame per row of the artifact.\<close>

lemma load_fullstate_traj_valid:
  assumes "load_fullstate_traj self tf = Inr r"
  shows "valid_trajectory r \<and> params r = params self \<and> length (traj r) = length (table tf)"
proof -
  from assms obtain rawTraj where raw: "np_loadtxt (table tf) = Inr rawTraj"
    and 1: "bindE (param_int (params self) ''N'') (\<lambda>N.
     bindE (param_int (params self) ''M'') (\<lambda>M.
     bindE (nd_col rawTraj 0) (\<lambda>c0.
     bindE (nd_block rawTraj \<lparr>sl_start = None, sl_stop = None, sl_step = None\<rparr>
              \<lparr>sl_start = Some 1, sl_stop = Some (N * M + 1), sl_step = None\<rparr>) (\<lambda>block.
     bindE (reshape_frames N M (map trunc_int (concat block))) (\<lambda>frames.
     bindE (nd_col rawTraj (N * M + 1)) (\<lambda>T.
     bindE (nd_col rawTraj (N * M + 2)) (\<lambda>Dt.
     bindE (nd_col rawTraj (N * M + 3)) (\<lambda>E.
       Inr (self\<lparr>trajIdx := map trunc_int c0, traj := frames,
                 trajT := T, trajDt := Dt, trajEnergy := E\<rparr>))))))))) = Inr r"
    unfolding load_fullstate_traj_def by (blast dest: bindE_Inr)
  from 1 obtain N where N: "param_int (params self) ''N'' = Inr N"
    and 2: "bindE (param_int (params self) ''M'') (\<lambda>M.
     bindE (nd_col rawTraj 0) (\<lambda>c0.
     bindE (nd_block rawTraj \<lparr>sl_start = None, sl_stop = None, sl_step = None\<rparr>
              \<lparr>sl_start = Some 1, sl_stop = Some (N * M + 1), sl_step = None\<rparr>) (\<lambda>block.
     bindE (reshape_frames N M (map trunc_int (concat block))) (\<lambda>frames.
     bindE (nd_col rawTraj (N * M + 1)) (\<lambda>T.
     bindE (nd_col rawTraj (N * M + 2)) (\<lambda>Dt.
     bindE (nd_col rawTraj (N * M + 3)) (\<lambda>E.
       Inr (self\<lparr>trajIdx := map trunc_int c0, traj := frames,
                 trajT := T, trajDt := Dt, trajEnergy := E\<rparr>)))))))) = Inr r"
    by (blast dest: bindE_Inr)
  from 2 obtain M where M: "param_int (params self) ''M'' = Inr M"
    and 3: "bindE (nd_col rawTraj 0) (\<lambda>c0.
     bindE (nd_block rawTraj \<lparr>sl_start = None, sl_stop = None, sl_step = None\<rparr>
              \<lparr>sl_start = Some 1, sl_stop = Some (N * M + 1), sl_step = None\<rparr>) (\<lambda>block.
     bindE (reshape_frames N M (map trunc_int (concat block))) (\<lambda>frames.
     bindE (nd_col rawTraj (N * M + 1)) (\<lambda>T.
     bindE (nd_col rawTraj (N * M + 2)) (\<lambda>Dt.
     bindE (nd_col rawTraj (N * M + 3)) (\<lambda>E.
       Inr (self\<lparr>trajIdx := map trunc_int c0, traj := frames,
                 trajT := T, trajDt := Dt, trajEnergy := E\<rparr>))))))) = Inr r"
    by (blast dest: bindE_Inr)
  from 3 obtain c0 block frames T Dt E where c0: "nd_col rawTraj 0 = Inr c0"
    and block: "nd_block rawTraj \<lparr>sl_start = None, sl_stop = None, sl_step = None\<rparr>
              \<lparr>sl_start = Some 1, sl_stop = Some (N * M + 1), sl_step = None\<rparr> = Inr block"
    and frames: "reshape_frames N M (map trunc_int (concat block)) = Inr frames"
    and T: "nd_col rawTraj (N * M + 1) = Inr T"
    and Dt: "nd_col rawTraj (N * M + 2) = Inr Dt"
    and E: "nd_col rawTraj (N * M + 3) = Inr E"
    and r: "r = self\<lparr>trajIdx := map trunc_int c0, traj := frames,
                 trajT := T, trajDt := Dt, trajEnergy := E\<rparr>"
    by (fastforce dest!: bindE_Inr)
  note sh = reshape_frames_shape [OF frames]
  have pos: "0 < N" "0 < M" using sh by simp_all
  obtain rows where rows: "rawTraj = Arr2D rows" and lE: "length E = length rows"
    and w: "N * M + 3 < int (length (hd rows))"
    using nd_col_length [OF E] pos by (auto split: if_splits)
  have lT: "length T = length rows" using nd_col_length [OF T] rows by auto
  have lDt: "length Dt = length rows" using nd_col_length [OF Dt] rows by auto
  have lc0: "length c0 = length rows" using nd_col_length [OF c0] rows by auto
  have t: "rows = table tf" and uni: "list_all (\<lambda>r. length r = length (hd rows)) rows"
    using np_loadtxt_rows [OF raw [unfolded rows]] by blast+
  have c: "0 \<le> N * M" using pos by simp
  obtain ci where ci: "slice_indices \<lparr>sl_start = Some 1, sl_stop = Some (N * M + 1), sl_step = None\<rparr>
                         (length (hd rows)) = Inr ci"
    and lci: "length ci = nat (N * M)"
    using slice_columns [OF c, of "length (hd rows)"] w by auto
  have b: "block = map (\<lambda>r. take_indices r ci) rows"
    using block unfolding rows nd_block_def
    by (simp add: slice_all ci bindE_def take_indices_all)
  have "list_all (\<lambda>r. length r = nat (N * M)) block"
    unfolding b list_all_iff by (simp add: take_indices_def lci)
  then have "length (concat block) = length rows * nat (N * M)"
    using length_concat_uniform [of "nat (N * M)" block] by (simp add: b)
  moreover have k: "0 < nat (N * M)" using pos by simp
  moreover have "length frames = length (map trunc_int (concat block)) div nat (N * M)"
    using sh by blast
  ultimately have lf: "length frames = length rows"
    by (simp only: length_map nonzero_mult_div_cancel_right [OF less_imp_neq [OF k, symmetric]])
  have "valid_trajectory r"
    unfolding valid_trajectory_def r
    using sh pos by (simp add: N M lf lT lDt lE lc0)
  then show ?thesis by (simp add: r lf t)
qed

end
